theory Spec2Isabelle
  imports Main "HOL-Library.Char_ord" "HOL-Library.List_Lexorder" "HOL-Library.Multiset"
begin

section \<open>Python values and strings\<close>

text \<open>
  Strings are \<^typ>\<open>string\<close>: a character stands for a code point below 256 (ASCII and
  Latin-1).  Python code points above that range are outside the model.  Sorting strings uses the
  lexicographic order on code points, as Python's comparison of \<^verbatim>\<open>str\<close> does.
\<close>

definition quote :: char where
  "quote = CHR 0x27"

definition dquote :: char where
  "dquote = CHR 0x22"

definition backslash :: char where
  "backslash = CHR 0x5C"

text \<open>\<^verbatim>\<open>str.lower()\<close> on code points below 256: A-Z and the Latin-1 capitals (192-222,
  without the multiplication sign 215) move up by 32.\<close>

definition lower_char :: "char \<Rightarrow> char" where
  "lower_char c =
     (let n = (of_char c :: nat)
      in if (65 \<le> n \<and> n \<le> 90) \<or> (192 \<le> n \<and> n \<le> 222 \<and> n \<noteq> 215)
         then char_of (n + 32) else c)"

definition lower :: "string \<Rightarrow> string" where
  "lower s = map lower_char s"

text \<open>\<^verbatim>\<open>sub in s\<close> for strings: \<open>sub\<close> occurs in \<open>s\<close> as a contiguous block.\<close>

fun starts_with :: "string \<Rightarrow> string \<Rightarrow> bool" where
  "starts_with s [] = True"
| "starts_with [] (p # ps) = False"
| "starts_with (c # cs) (p # ps) = (c = p \<and> starts_with cs ps)"

fun str_contains :: "string \<Rightarrow> string \<Rightarrow> bool" where
  "str_contains sub [] = (sub = [])"
| "str_contains sub (c # cs) = (starts_with (c # cs) sub \<or> str_contains sub cs)"

text \<open>Truthiness of an optional string argument: \<^verbatim>\<open>None\<close> and \<^verbatim>\<open>""\<close> are falsy.\<close>

fun truthy_str :: "string option \<Rightarrow> bool" where
  "truthy_str None = False"
| "truthy_str (Some s) = (s \<noteq> [])"

subsection \<open>Integers and their text\<close>

text \<open>\<^verbatim>\<open>str(n)\<close> for an integer.\<close>

fun str_of_nat :: "nat \<Rightarrow> string" where
  "str_of_nat n =
     (if n < 10 then [char_of (48 + n)]
      else str_of_nat (n div 10) @ [char_of (48 + n mod 10)])"

definition str_of_int :: "int \<Rightarrow> string" where
  "str_of_int i = (if i < 0 then CHR ''-'' # str_of_nat (nat (- i)) else str_of_nat (nat i))"

text \<open>
  \<^verbatim>\<open>int(s)\<close> for a string, base 10: white space around the number is dropped, one sign may
  come first, and single underscores may stand between digits.  \<open>None\<close> is the
  \<^verbatim>\<open>ValueError\<close>.  The white space \<^verbatim>\<open>int\<close> drops is tab, line feed, vertical tab, form
  feed, carriage return and space, and of the characters above 127 the next-line character and
  the no-break space; the separators 28 to 31, which \<^verbatim>\<open>str.strip\<close> would drop, are not among
  them (a string of character 31 and the digit 7 raises).  A number of more than 4300 digits is refused (the default
  of \<^verbatim>\<open>sys.set_int_max_str_digits\<close>; leading zeros count, underscores do not).
\<close>

definition is_space :: "char \<Rightarrow> bool" where
  "is_space c = ((of_char c :: nat) \<in> set [9, 10, 11, 12, 13, 32, 133, 160])"

definition int_max_str_digits :: nat where
  "int_max_str_digits = 4300"

definition strip :: "string \<Rightarrow> string" where
  "strip s = rev (dropWhile is_space (rev (dropWhile is_space s)))"

definition digit_val :: "char \<Rightarrow> nat option" where
  "digit_val c =
     (let n = (of_char c :: nat) in if 48 \<le> n \<and> n \<le> 57 then Some (n - 48) else None)"

fun digits_value :: "string \<Rightarrow> nat \<Rightarrow> nat option" where
  "digits_value [] acc = Some acc"
| "digits_value [c] acc = (case digit_val c of None \<Rightarrow> None | Some v \<Rightarrow> Some (acc * 10 + v))"
| "digits_value (c # d # ds) acc =
     (if c = CHR ''_''
      then (case digit_val d of None \<Rightarrow> None | Some v \<Rightarrow> digits_value ds (acc * 10 + v))
      else (case digit_val c of None \<Rightarrow> None | Some v \<Rightarrow> digits_value (d # ds) (acc * 10 + v)))"

definition unsigned_value :: "string \<Rightarrow> nat option" where
  "unsigned_value body =
     (if length (filter (\<lambda>c. digit_val c \<noteq> None) body) > int_max_str_digits then None
      else
        (case body of
           [] \<Rightarrow> None
         | d # ds \<Rightarrow> (case digit_val d of None \<Rightarrow> None | Some v \<Rightarrow> digits_value ds v)))"

definition int_of_str :: "string \<Rightarrow> int option" where
  "int_of_str s =
     (case strip s of
        [] \<Rightarrow> None
      | c # cs \<Rightarrow>
          if c = CHR ''-'' then map_option (\<lambda>n. - int n) (unsigned_value cs)
          else if c = CHR ''+'' then map_option int (unsigned_value cs)
          else map_option int (unsigned_value (c # cs)))"

subsection \<open>The text of a string, as \<^verbatim>\<open>repr\<close> prints it\<close>

definition hex_digit :: "nat \<Rightarrow> char" where
  "hex_digit n = (if n < 10 then char_of (48 + n) else char_of (87 + n))"

definition printable :: "char \<Rightarrow> bool" where
  "printable c =
     (let n = (of_char c :: nat)
      in (32 \<le> n \<and> n < 127) \<or> (161 \<le> n \<and> n \<noteq> 173))"

definition repr_char :: "char \<Rightarrow> char \<Rightarrow> string" where
  "repr_char q c =
     (let n = (of_char c :: nat)
      in if c = q \<or> c = backslash then [backslash, c]
         else if n = 9 then [backslash, CHR ''t'']
         else if n = 10 then [backslash, CHR ''n'']
         else if n = 13 then [backslash, CHR ''r'']
         else if printable c then [c]
         else [backslash, CHR ''x'', hex_digit (n div 16), hex_digit (n mod 16)])"

definition repr_str :: "string \<Rightarrow> string" where
  "repr_str s =
     (let q = (if quote \<in> set s \<and> dquote \<notin> set s then dquote else quote)
      in [q] @ concat (map (repr_char q) s) @ [q])"

subsection \<open>JSON values\<close>

text \<open>
  What \<^verbatim>\<open>json.loads\<close> returns, and the values tools receive and return: \<^verbatim>\<open>None\<close>, booleans,
  integers, strings, lists, and dicts with string keys (an association list in insertion order,
  its keys distinct).  Floating-point numbers are outside the model.
\<close>

datatype json =
    JNull
  | JBool bool
  | JInt int
  | JStr string
  | JArr "json list"
  | JObj "(string \<times> json) list"

fun truthy :: "json \<Rightarrow> bool" where
  "truthy JNull = False"
| "truthy (JBool b) = b"
| "truthy (JInt i) = (i \<noteq> 0)"
| "truthy (JStr s) = (s \<noteq> [])"
| "truthy (JArr xs) = (xs \<noteq> [])"
| "truthy (JObj kvs) = (kvs \<noteq> [])"

fun type_name :: "json \<Rightarrow> string" where
  "type_name JNull = ''NoneType''"
| "type_name (JBool b) = ''bool''"
| "type_name (JInt i) = ''int''"
| "type_name (JStr s) = ''str''"
| "type_name (JArr xs) = ''list''"
| "type_name (JObj kvs) = ''dict''"

text \<open>
  A raised exception, with the text \<^verbatim>\<open>str(e)\<close> gives for it: the dispatcher tells
  \<^verbatim>\<open>KeyError\<close> from every other \<^verbatim>\<open>Exception\<close> and uses nothing but that text.
  For a \<^verbatim>\<open>KeyError\<close> raised with one argument, \<^verbatim>\<open>str(e)\<close> is the \<^verbatim>\<open>repr\<close> of the
  argument: \<^verbatim>\<open>str(KeyError("x"))\<close> has the five characters \<^verbatim>\<open>'x'\<close>, quotes included.
  The texts of the interpreter's own \<^verbatim>\<open>TypeError\<close>s are those of CPython 3.12.
\<close>

datatype py_exn = KeyError string | Exception string

text \<open>Dictionary keys (hashable values).  \<^verbatim>\<open>True\<close> and \<^verbatim>\<open>1\<close> are the same key, so a
  boolean is stored as its integer.\<close>

datatype py_key = KNone | KInt int | KStr string

fun hashable :: "json \<Rightarrow> py_exn + py_key" where
  "hashable JNull = Inr KNone"
| "hashable (JBool b) = Inr (KInt (if b then 1 else 0))"
| "hashable (JInt i) = Inr (KInt i)"
| "hashable (JStr s) = Inr (KStr s)"
| "hashable (JArr xs) = Inl (Exception (''unhashable type: '' @ [quote] @ ''list'' @ [quote]))"
| "hashable (JObj kvs) = Inl (Exception (''unhashable type: '' @ [quote] @ ''dict'' @ [quote]))"

text \<open>\<^verbatim>\<open>repr\<close> of a hashable JSON value (lists and dicts are never printed by the code).\<close>

fun repr :: "json \<Rightarrow> string" where
  "repr JNull = ''None''"
| "repr (JBool b) = (if b then ''True'' else ''False'')"
| "repr (JInt i) = str_of_int i"
| "repr (JStr s) = repr_str s"
| "repr (JArr xs) = ''[...]''"
| "repr (JObj kvs) = ''{...}''"

text \<open>\<^verbatim>\<open>obj[key]\<close> with a string key.\<close>

fun subscript :: "json \<Rightarrow> string \<Rightarrow> py_exn + json" where
  "subscript (JObj kvs) k =
     (case map_of kvs k of Some v \<Rightarrow> Inr v | None \<Rightarrow> Inl (KeyError (repr_str k)))"
| "subscript (JArr xs) k = Inl (Exception ''list indices must be integers or slices, not str'')"
| "subscript (JStr s) k =
     Inl (Exception (''string indices must be integers, not '' @ [quote] @ ''str'' @ [quote]))"
| "subscript v k =
     Inl (Exception ([quote] @ type_name v @ [quote] @ '' object is not subscriptable''))"

text \<open>A Python dict as an association list: assigning to a key that is present replaces its
  value in place, a new key goes to the end.\<close>

fun dict_set :: "('k \<times> 'v) list \<Rightarrow> 'k \<Rightarrow> 'v \<Rightarrow> ('k \<times> 'v) list" where
  "dict_set [] k v = [(k, v)]"
| "dict_set ((k', v') # kvs) k v =
     (if k' = k then (k', v) # kvs else (k', v') # dict_set kvs k v)"

section \<open>The tool agent: \<^verbatim>\<open>tool_pattern/tool_agent.py\<close>\<close>

text \<open>
  A registered tool: its signature (what \<^verbatim>\<open>json.loads(tool.fn_signature)\<close> gives, handed to
  the validator as it is) and \<^verbatim>\<open>tool.run(**args)\<close>.  Running a tool returns a result or raises,
  and may change the state \<open>'w\<close> it runs in.  The class \<^verbatim>\<open>Tool\<close>
  and \<^verbatim>\<open>validate_arguments\<close> live in \<^verbatim>\<open>tool_pattern/tool.py\<close>, which is not among the
  sources: both are parameters of the dispatcher.
\<close>

record ('sig, 'w) tool =
  fn_signature :: 'sig
  tool_run :: "(string \<times> json) list \<Rightarrow> 'w \<Rightarrow> (py_exn + json) \<times> 'w"

type_synonym ('sig, 'w) validator = "json \<Rightarrow> 'sig \<Rightarrow> 'w \<Rightarrow> (py_exn + json) \<times> 'w"

type_synonym observations = "(py_key \<times> json) list"

text \<open>A raw call block, seen through \<^verbatim>\<open>json.loads\<close> (the standard library's parser): text
  that does not parse, with the decoder's message, or the value parsed.\<close>

datatype call_block = Malformed string | Block json

fun json_loads :: "call_block \<Rightarrow> py_exn + json" where
  "json_loads (Malformed msg) = Inl (Exception msg)"
| "json_loads (Block v) = Inr v"

text \<open>Lines 143-149: \<^verbatim>\<open>group_size\<close> is replaced by \<^verbatim>\<open>int(value)\<close> unless it is \<^verbatim>\<open>None\<close>
  or the conversion raises \<^verbatim>\<open>ValueError\<close> or \<^verbatim>\<open>TypeError\<close>.\<close>

fun int_or_same :: "json \<Rightarrow> json" where
  "int_or_same (JBool b) = JInt (if b then 1 else 0)"
| "int_or_same (JStr s) = (case int_of_str s of Some i \<Rightarrow> JInt i | None \<Rightarrow> JStr s)"
| "int_or_same v = v"

definition coerce_group_size :: "(string \<times> json) list \<Rightarrow> (string \<times> json) list" where
  "coerce_group_size args =
     map (\<lambda>(key, val). if key = ''group_size'' \<and> val \<noteq> JNull then (key, int_or_same val)
                         else (key, val)) args"

text \<open>\<^verbatim>\<open>args.items()\<close>: only a dict has items.\<close>

fun items :: "json \<Rightarrow> py_exn + (string \<times> json) list" where
  "items (JObj kvs) = Inr kvs"
| "items v =
     Inl (Exception ([quote] @ type_name v @ [quote] @ '' object has no attribute ''
                     @ [quote] @ ''items'' @ [quote]))"

text \<open>Lines 124-138 of the \<^verbatim>\<open>try\<close> block: parse the block, read its name, resolve the tool
  (\<^verbatim>\<open>raise KeyError(tool_name)\<close> when it is not registered) and validate the call.\<close>

definition resolve_and_validate ::
  "('sig, 'w) validator \<Rightarrow> (string \<rightharpoonup> ('sig, 'w) tool) \<Rightarrow> 'w \<Rightarrow> call_block
     \<Rightarrow> (py_exn + ('sig, 'w) tool \<times> json) \<times> 'w" where
  "resolve_and_validate validate_arguments tools_dict w tool_call_str =
     (case json_loads tool_call_str of
        Inl e \<Rightarrow> (Inl e, w)
      | Inr tool_call \<Rightarrow>
          (case subscript tool_call ''name'' of
             Inl e \<Rightarrow> (Inl e, w)
           | Inr tool_name \<Rightarrow>
               (case hashable tool_name of
                  Inl e \<Rightarrow> (Inl e, w)
                | Inr (KStr n) \<Rightarrow>
                    (case tools_dict n of
                       None \<Rightarrow> (Inl (KeyError (repr tool_name)), w)
                     | Some t \<Rightarrow>
                         (case validate_arguments tool_call (fn_signature t) w of
                            (Inl e, w') \<Rightarrow> (Inl e, w')
                          | (Inr validated_tool_call, w') \<Rightarrow> (Inr (t, validated_tool_call), w')))
                | Inr _ \<Rightarrow> (Inl (KeyError (repr tool_name)), w))))"

text \<open>Lines 142-154: coerce \<^verbatim>\<open>group_size\<close>, run the tool, and find the key
  \<^verbatim>\<open>validated_tool_call["id"]\<close> the result is stored under.\<close>

definition execute_validated ::
  "('sig, 'w) tool \<Rightarrow> json \<Rightarrow> 'w \<Rightarrow> (py_exn + py_key \<times> json) \<times> 'w" where
  "execute_validated t validated_tool_call w =
     (case subscript validated_tool_call ''arguments'' of
        Inl e \<Rightarrow> (Inl e, w)
      | Inr args \<Rightarrow>
          (case items args of
             Inl e \<Rightarrow> (Inl e, w)
           | Inr kvs \<Rightarrow>
               (case tool_run t (coerce_group_size kvs) w of
                  (Inl e, w') \<Rightarrow> (Inl e, w')
                | (Inr result, w') \<Rightarrow>
                    (case subscript validated_tool_call ''id'' of
                       Inl e \<Rightarrow> (Inl e, w')
                     | Inr i \<Rightarrow>
                         (case hashable i of
                            Inl e \<Rightarrow> (Inl e, w')
                          | Inr k \<Rightarrow> (Inr (k, result), w'))))))"

definition try_tool_call ::
  "('sig, 'w) validator \<Rightarrow> (string \<rightharpoonup> ('sig, 'w) tool) \<Rightarrow> 'w \<Rightarrow> call_block
     \<Rightarrow> (py_exn + py_key \<times> json) \<times> 'w" where
  "try_tool_call validate_arguments tools_dict w tool_call_str =
     (case resolve_and_validate validate_arguments tools_dict w tool_call_str of
        (Inl e, w') \<Rightarrow> (Inl e, w')
      | (Inr (t, validated_tool_call), w') \<Rightarrow> execute_validated t validated_tool_call w')"

text \<open>The two \<^verbatim>\<open>except\<close> clauses (lines 155-160).\<close>

definition tool_not_found :: "string \<Rightarrow> json" where
  "tool_not_found e = JStr (''Tool '' @ [quote] @ e @ [quote] @ '' not found'')"

definition error_text :: "string \<Rightarrow> json" where
  "error_text e = JStr (''Error: '' @ e)"

text \<open>One round of the loop of \<^verbatim>\<open>process_tool_calls\<close>.\<close>

definition process_tool_call ::
  "('sig, 'w) validator \<Rightarrow> (string \<rightharpoonup> ('sig, 'w) tool) \<Rightarrow> observations \<times> 'w \<Rightarrow> call_block
     \<Rightarrow> observations \<times> 'w" where
  "process_tool_call validate_arguments tools_dict ow tool_call_str =
     (case try_tool_call validate_arguments tools_dict (snd ow) tool_call_str of
        (Inr (k, result), w') \<Rightarrow> (dict_set (fst ow) k result, w')
      | (Inl (KeyError e), w') \<Rightarrow> (dict_set (fst ow) (KStr ''error'') (tool_not_found e), w')
      | (Inl (Exception e), w') \<Rightarrow> (dict_set (fst ow) (KStr ''error'') (error_text e), w'))"

definition process_tool_calls ::
  "('sig, 'w) validator \<Rightarrow> (string \<rightharpoonup> ('sig, 'w) tool) \<Rightarrow> 'w \<Rightarrow> call_block list
     \<Rightarrow> observations \<times> 'w" where
  "process_tool_calls validate_arguments tools_dict w tool_calls_content =
     foldl (process_tool_call validate_arguments tools_dict) ([], w) tool_calls_content"

subsection \<open>\<^verbatim>\<open>run\<close>: one user turn, from the extracted call blocks to the observations\<close>

text \<open>
  The state of the agent a turn works on: the call-id counter and the state the tools work on.
  The two chat histories and the completion provider do not touch the observations and are left
  out.
\<close>

record 'd agent =
  tool_call_id :: nat
  tool_state :: 'd

text \<open>What \<^verbatim>\<open>extract_tag_content\<close> returned (it is in \<^verbatim>\<open>utils/extraction.py\<close>, not among the
  sources): whether a call block was found, and the blocks.\<close>

record tag_content =
  found :: bool
  content :: "call_block list"

definition reminder :: json where
  "reminder =
     JObj [(''message'',
       JStr (''IMPORTANT: No restaurants found matching these criteria. ''
           @ ''Do NOT make up restaurant information. ''
           @ ''Only suggest options based on available data in fallback_suggestions if present.''))]"

text \<open>Line 206: the result is a dict with status \<^verbatim>\<open>"no_results"\<close> and a \<^verbatim>\<open>data\<close> entry that
  is falsy.\<close>

fun empty_no_results :: "json \<Rightarrow> bool" where
  "empty_no_results (JObj kvs) =
     (map_of kvs ''status'' = Some (JStr ''no_results'')
      \<and> (case map_of kvs ''data'' of None \<Rightarrow> False | Some d \<Rightarrow> \<not> truthy d))"
| "empty_no_results v = False"

text \<open>Lines 204-211: the loop over \<^verbatim>\<open>observations.items()\<close>, left by \<^verbatim>\<open>break\<close> at the first
  hit.\<close>

fun add_reminder :: "observations \<Rightarrow> observations \<Rightarrow> observations" where
  "add_reminder observations [] = observations"
| "add_reminder observations ((key, result) # rest) =
     (if empty_no_results result then dict_set observations (KStr ''reminder'') reminder
      else add_reminder observations rest)"

definition run_observations ::
  "('sig, 'd agent) validator \<Rightarrow> (string \<rightharpoonup> ('sig, 'd agent) tool) \<Rightarrow> 'd agent \<Rightarrow> tag_content
     \<Rightarrow> observations option \<times> 'd agent" where
  "run_observations validate_arguments tools_dict self tool_calls =
     (let self0 = self\<lparr>tool_call_id := 0\<rparr>
      in if found tool_calls
         then (case process_tool_calls validate_arguments tools_dict self0 (content tool_calls) of
                 (observations, self1) \<Rightarrow> (Some (add_reminder observations observations), self1))
         else (None, self0))"

subsection \<open>The validator and the tools, as the dispatcher calls them\<close>

text \<open>
  Lines 136-138 and 151: \<^verbatim>\<open>validate_arguments(tool_call, json.loads(tool.fn_signature))\<close> and
  \<^verbatim>\<open>tool.run(**args)\<close> are handed the call, the signature and the arguments, and not the
  agent.  The state \<open>'d\<close> they work on (the database, whatever a module keeps for itself) lies
  outside the agent object: they neither read nor write \<^verbatim>\<open>self.tool_call_id\<close>, which in the
  sources is written at lines 100 and 178 and nowhere read.
\<close>

definition validator_in_agent :: "('sig, 'd) validator \<Rightarrow> ('sig, 'd agent) validator" where
  "validator_in_agent validate_arguments tool_call sig self =
     (case validate_arguments tool_call sig (tool_state self) of
        (r, d') \<Rightarrow> (r, self\<lparr>tool_state := d'\<rparr>))"

definition in_agent :: "('sig, 'd) tool \<Rightarrow> ('sig, 'd agent) tool" where
  "in_agent t =
     \<lparr>fn_signature = fn_signature t,
      tool_run = (\<lambda>args self.
         (case tool_run t args (tool_state self) of
            (r, d') \<Rightarrow> (r, self\<lparr>tool_state := d'\<rparr>)))\<rparr>"

subsection \<open>The argument validator, from the specification\<close>

text \<open>
  Modelled from the spec: the tool signature that \<^verbatim>\<open>tool_pattern/tool.py\<close> (missing from the
  sources) compiles.  Section 3 of the specification: an ordered mapping from parameter names to
  the type and the required flag; of the type only "numeric or not" matters to the validator.
\<close>

record param_spec =
  numeric :: bool
  required :: bool

type_synonym tool_signature = "(string \<times> param_spec) list"

text \<open>Modelled from the spec: the coercion of section 4.3, "attempt coercion from string
  representation, leaving the original value untouched if coercion fails".\<close>

fun number_from_string :: "json \<Rightarrow> json" where
  "number_from_string (JStr s) = (case int_of_str s of Some i \<Rightarrow> JInt i | None \<Rightarrow> JStr s)"
| "number_from_string v = v"

text \<open>Modelled from the spec: the coercion applied to the arguments of numeric parameters.\<close>

definition coerce_numeric :: "tool_signature \<Rightarrow> (string \<times> json) list \<Rightarrow> (string \<times> json) list" where
  "coerce_numeric sig args =
     map (\<lambda>(key, val).
            (case map_of sig key of
               Some p \<Rightarrow> if numeric p then (key, number_from_string val) else (key, val)
             | None \<Rightarrow> (key, val))) args"

text \<open>Modelled from the spec: the declared required parameters that are absent from the
  arguments.\<close>

definition missing_arguments :: "tool_signature \<Rightarrow> (string \<times> json) list \<Rightarrow> string list" where
  "missing_arguments sig args =
     map fst (filter (\<lambda>(key, p). required p \<and> map_of args key = None) sig)"

text \<open>
  Modelled from the spec: \<^verbatim>\<open>validate_arguments\<close> of \<^verbatim>\<open>tool_pattern/tool.py\<close>, which is missing
  from the sources.  Section 4.3 of the specification: every declared required parameter must be
  among the arguments (else a MissingArgument failure); arguments of a numeric parameter are
  coerced; the call gets as its \<^verbatim>\<open>id\<close> the number of calls validated so far, whatever
  \<^verbatim>\<open>id\<close> the raw block carries.  The function is called with the call and the signature, so
  the count is its own (the first component of the state it works on); nothing in the sources
  tells it that a turn begins.
\<close>

definition validate_arguments_spec :: "(tool_signature, nat \<times> 'd) validator" where
  "validate_arguments_spec tool_call sig w =
     (case subscript tool_call ''arguments'' of
        Inl e \<Rightarrow> (Inl e, w)
      | Inr (JObj args) \<Rightarrow>
          (case missing_arguments sig args of
             [] \<Rightarrow>
               (Inr (JObj [(''name'', case subscript tool_call ''name'' of Inr n \<Rightarrow> n | Inl e \<Rightarrow> JNull),
                           (''arguments'', JObj (coerce_numeric sig args)),
                           (''id'', JInt (int (fst w)))]),
                (Suc (fst w), snd w))
           | m # ms \<Rightarrow> (Inl (Exception (''Missing required argument: '' @ m)), w))
      | Inr v \<Rightarrow> (Inl (Exception ''arguments must be a mapping''), w))"

text \<open>A tool run beside that count, which it leaves alone.\<close>

definition beside_count :: "('sig, 'd) tool \<Rightarrow> ('sig, nat \<times> 'd) tool" where
  "beside_count t =
     \<lparr>fn_signature = fn_signature t,
      tool_run = (\<lambda>args w.
         (case tool_run t args (snd w) of
            (r, d') \<Rightarrow> (r, (fst w, d'))))\<rparr>"

section \<open>The restaurant tools: \<^verbatim>\<open>intent_restaurant_booking.py\<close>\<close>

subsection \<open>The catalog and the database\<close>

text \<open>
  The module's globals, filled once by \<^verbatim>\<open>initialize_db_metadata\<close>.  A Python set is listed
  in the order its iteration gives; the dict \<^verbatim>\<open>CITY_MAPPINGS\<close> is an association list in
  insertion order.
\<close>

record catalog =
  AVAILABLE_CITIES :: "string list"
  AVAILABLE_CUISINES :: "string list"
  CITY_MAPPINGS :: "(string \<times> string) list"

text \<open>The two tables (all columns are \<^verbatim>\<open>NOT NULL\<close>); the date columns of a reservation are
  left out.  \<open>next_reservation_id\<close> is the sequence behind the \<^verbatim>\<open>SERIAL\<close> key.\<close>

record restaurant =
  r_id :: int
  r_name :: string
  r_city :: string
  r_address :: string
  r_cuisine :: string
  r_seating_capacity :: int
  r_available_capacity :: int
  r_available_reservations :: "string list"
  r_mood :: string

record reservation =
  res_id :: int
  res_restaurant_id :: int
  res_customer_name :: string
  res_contact_number :: string
  res_party_size :: int
  res_reservation_time :: string

record database =
  tbl_restaurants :: "restaurant list"
  tbl_reservations :: "reservation list"
  next_reservation_id :: int

text \<open>What a tool works on: the catalog, and the database \<^verbatim>\<open>get_db_connection()\<close> reaches
  (\<open>None\<close> when the connection fails).\<close>

record store =
  catalog :: catalog
  connection :: "database option"

definition normalize_city :: "catalog \<Rightarrow> string option \<Rightarrow> string option" where
  "normalize_city cat city =
     (if \<not> truthy_str city then None
      else
        (let city_lower = lower (the city)
         in case map_of (CITY_MAPPINGS cat) city_lower of
              Some mapped_city \<Rightarrow> Some mapped_city
            | None \<Rightarrow>
                (case find (\<lambda>(variation, mapped_city).
                              str_contains variation city_lower \<or> str_contains city_lower variation)
                           (CITY_MAPPINGS cat) of
                   Some (variation, mapped_city) \<Rightarrow> Some mapped_city
                 | None \<Rightarrow> city)))"

definition normalize_cuisine :: "catalog \<Rightarrow> string option \<Rightarrow> string option" where
  "normalize_cuisine cat cuisine =
     (if \<not> truthy_str cuisine then None
      else
        (let cuisine_lower = lower (the cuisine)
         in if cuisine_lower \<in> set (AVAILABLE_CUISINES cat) then Some cuisine_lower
            else
              (case find (\<lambda>db_cuisine.
                            str_contains cuisine_lower db_cuisine \<or> str_contains db_cuisine cuisine_lower)
                         (AVAILABLE_CUISINES cat) of
                 Some db_cuisine \<Rightarrow> Some db_cuisine
               | None \<Rightarrow> cuisine)))"

subsection \<open>Queries\<close>

text \<open>
  The query of \<^verbatim>\<open>get_recommendations\<close> is \<^verbatim>\<open>SELECT * FROM restaurants WHERE 1=1\<close> followed by
  some of four clauses, each with one placeholder; the parameters are a separate list.  Executing
  a query whose placeholders and parameters differ in number raises, as does one with a
  parameter the driver cannot quote (and the tool's \<^verbatim>\<open>except\<close> turns that into an error
  result).  Rows come in the order of the table; SQL's
  \<^verbatim>\<open>LOWER\<close> is \<^const>\<open>lower\<close>.
\<close>

datatype clause = Capacity_at_least | City_is | Cuisine_is | Mood_is

datatype param = PInt int | PStr string

datatype db_error =
    Nul_character | Parameter_count | Parameter_type | Value_too_long | Integer_out_of_range

text \<open>The driver (\<^verbatim>\<open>psycopg2\<close>) quotes every parameter before it looks at the query, and
  raises \<^verbatim>\<open>ValueError\<close> for a string with a NUL character in it.\<close>

definition adaptable :: "string \<Rightarrow> bool" where
  "adaptable s = (CHR 0x00 \<notin> set s)"

fun adaptable_param :: "param \<Rightarrow> bool" where
  "adaptable_param (PInt n) = True"
| "adaptable_param (PStr s) = adaptable s"

fun clause_holds :: "clause \<Rightarrow> param \<Rightarrow> restaurant \<Rightarrow> bool" where
  "clause_holds Capacity_at_least (PInt n) r = (r_available_capacity r \<ge> n)"
| "clause_holds City_is (PStr s) r = (lower (r_city r) = lower s)"
| "clause_holds Cuisine_is (PStr s) r = (lower (r_cuisine r) = lower s)"
| "clause_holds Mood_is (PStr s) r = (lower (r_mood r) = lower s)"
| "clause_holds c p r = False"

fun well_typed :: "clause \<Rightarrow> param \<Rightarrow> bool" where
  "well_typed Capacity_at_least (PInt n) = True"
| "well_typed Capacity_at_least (PStr s) = False"
| "well_typed c (PStr s) = True"
| "well_typed c (PInt n) = False"

definition execute :: "database \<Rightarrow> clause list \<Rightarrow> param list \<Rightarrow> db_error + restaurant list" where
  "execute db query params =
     (if \<not> list_all adaptable_param params then Inl Nul_character
      else if length query \<noteq> length params then Inl Parameter_count
      else if \<not> list_all (\<lambda>(c, p). well_typed c p) (zip query params) then Inl Parameter_type
      else Inr (filter (\<lambda>r. list_all (\<lambda>(c, p). clause_holds c p r) (zip query params))
                       (tbl_restaurants db)))"

text \<open>\<^verbatim>\<open>LOWER(name) LIKE LOWER(%s)\<close>: in a pattern \<^verbatim>\<open>%\<close> stands for any text, \<^verbatim>\<open>_\<close> for any
  one character, and a backslash takes the next character literally.\<close>

fun sql_like :: "string \<Rightarrow> string \<Rightarrow> bool" where
  "sql_like [] s = (s = [])"
| "sql_like (p # ps) s =
     (if p = CHR ''%'' then
        (sql_like ps s \<or> (case s of [] \<Rightarrow> False | c # cs \<Rightarrow> sql_like (p # ps) cs))
      else if p = CHR ''_'' then
        (case s of [] \<Rightarrow> False | c # cs \<Rightarrow> sql_like ps cs)
      else if p = backslash then
        (case ps of
           [] \<Rightarrow> False
         | q # qs \<Rightarrow> (case s of [] \<Rightarrow> False | c # cs \<Rightarrow> c = q \<and> sql_like qs cs))
      else (case s of [] \<Rightarrow> False | c # cs \<Rightarrow> c = p \<and> sql_like ps cs))"

subsection \<open>Arguments that should be numbers\<close>

text \<open>A \<^verbatim>\<open>group_size\<close> or \<^verbatim>\<open>party_size\<close> as the tool may receive it: nothing, an integer, or a
  string.\<close>

datatype int_arg = No_value | Int_value int | Str_value string

fun truthy_arg :: "int_arg \<Rightarrow> bool" where
  "truthy_arg No_value = False"
| "truthy_arg (Int_value i) = (i \<noteq> 0)"
| "truthy_arg (Str_value s) = (s \<noteq> [])"

text \<open>\<^verbatim>\<open>int(x)\<close>; \<open>None\<close> stands for \<^verbatim>\<open>ValueError\<close> and \<^verbatim>\<open>TypeError\<close>.\<close>

fun int_of_arg :: "int_arg \<Rightarrow> int option" where
  "int_of_arg No_value = None"
| "int_of_arg (Int_value i) = Some i"
| "int_of_arg (Str_value s) = int_of_str s"

subsection \<open>\<^verbatim>\<open>get_recommendations\<close>: occasion to mood\<close>

text \<open>\<^verbatim>\<open>mood_mapping\<close> of \<^verbatim>\<open>get_recommendations\<close>; a dict literal, iterated in the order
  it is written.\<close>

definition mood_mapping :: "(string \<times> string) list" where
  "mood_mapping =
     [(''date'', ''romantic''),
      (''business'', ''sophisticated''),
      (''family'', ''casual''),
      (''friends'', ''casual''),
      (''celebration'', ''lively'')]"

text \<open>The loop \<^verbatim>\<open>for key, value in mood_mapping.items(): if key in occasion.lower(): mood = value; break\<close>
  over any table.\<close>

fun first_key_in :: "(string \<times> string) list \<Rightarrow> string \<Rightarrow> string option" where
  "first_key_in [] s = None"
| "first_key_in ((k, v) # kvs) s = (if str_contains k s then Some v else first_key_in kvs s)"

definition derive_mood :: "string option \<Rightarrow> string option" where
  "derive_mood occasion =
     (if truthy_str occasion then first_key_in mood_mapping (lower (the occasion)) else None)"

text \<open>The wording of the specification, for comparison: the same containment test with the table
  keys tried longest first.\<close>

definition derive_mood_longest_first :: "string option \<Rightarrow> string option" where
  "derive_mood_longest_first occasion =
     (if truthy_str occasion
      then first_key_in (rev (sort_key (\<lambda>kv. length (fst kv)) mood_mapping)) (lower (the occasion))
      else None)"

subsection \<open>\<^verbatim>\<open>get_recommendations\<close>: ranking\<close>

text \<open>\<^verbatim>\<open>xs.sort(key=k, reverse=True)\<close>: the list is reversed, sorted stably in ascending order
  and reversed again, so rows with equal keys keep their order.\<close>

definition sort_desc :: "('a \<Rightarrow> 'k::linorder) \<Rightarrow> 'a list \<Rightarrow> 'a list" where
  "sort_desc k xs = rev (sort_key k (rev xs))"

text \<open>Lines 473-484.\<close>

definition rank_results :: "string option \<Rightarrow> string option \<Rightarrow> restaurant list \<Rightarrow> restaurant list" where
  "rank_results mood normalized_cuisine result_data =
     (if result_data = [] then result_data
      else
        (let by_slots = sort_desc (\<lambda>x. length (r_available_reservations x)) result_data;
             by_mood =
               (if truthy_str mood
                then sort_desc (\<lambda>x. lower (r_mood x) = lower (the mood)) by_slots
                else by_slots)
         in if truthy_str normalized_cuisine
            then sort_desc (\<lambda>x. lower (r_cuisine x) = lower (the normalized_cuisine)) by_mood
            else by_mood))"

text \<open>The wording of the specification, for comparison: three stable descending sorts, by the
  number of open slots, by "mood equals requested mood" and by "cuisine equals requested
  cuisine".  A mood or cuisine that was not requested is equalled by no row.\<close>

definition slot_count :: "restaurant \<Rightarrow> nat" where
  "slot_count x = length (r_available_reservations x)"

definition mood_match :: "string option \<Rightarrow> restaurant \<Rightarrow> bool" where
  "mood_match mood x = (truthy_str mood \<and> lower (r_mood x) = lower (the mood))"

definition cuisine_match :: "string option \<Rightarrow> restaurant \<Rightarrow> bool" where
  "cuisine_match cuisine x = (truthy_str cuisine \<and> lower (r_cuisine x) = lower (the cuisine))"

definition three_stable_sorts ::
  "string option \<Rightarrow> string option \<Rightarrow> restaurant list \<Rightarrow> restaurant list" where
  "three_stable_sorts mood cuisine rows =
     sort_desc (cuisine_match cuisine) (sort_desc (mood_match mood) (sort_desc slot_count rows))"

text \<open>A list is in descending order of a key.\<close>

definition descending :: "('a \<Rightarrow> 'k::linorder) \<Rightarrow> 'a list \<Rightarrow> bool" where
  "descending k xs = sorted (rev (map k xs))"

subsection \<open>\<^verbatim>\<open>get_recommendations\<close>: search and relaxation\<close>

datatype failure = Db_connection_error | Invalid_group_size string | Raised db_error

record fallback =
  available_cuisines :: "string list"
  city_restaurant_count :: nat

text \<open>Lines 402-461.  The result is the rows found and the fallback suggestions, or the
  exception a query raised.\<close>

definition build_query :: "int option \<Rightarrow> string \<Rightarrow> string option \<Rightarrow> string option \<Rightarrow> clause list" where
  "build_query group_size normalized_city normalized_cuisine mood =
     (if group_size \<noteq> None then [Capacity_at_least] else [])
     @ [City_is]
     @ (if truthy_str normalized_cuisine then [Cuisine_is] else [])
     @ (if truthy_str mood then [Mood_is] else [])"

definition build_params :: "int option \<Rightarrow> string \<Rightarrow> string option \<Rightarrow> string option \<Rightarrow> param list" where
  "build_params group_size normalized_city normalized_cuisine mood =
     (if group_size \<noteq> None then [PInt (the group_size)] else [])
     @ [PStr normalized_city]
     @ (if truthy_str normalized_cuisine then [PStr (the normalized_cuisine)] else [])
     @ (if truthy_str mood then [PStr (the mood)] else [])"

definition without_mood :: "database \<Rightarrow> clause list \<Rightarrow> param list \<Rightarrow> string \<Rightarrow> db_error + restaurant list" where
  "without_mood db query params mood =
     execute db (filter (\<lambda>c. c \<noteq> Mood_is) query) (filter (\<lambda>p. p \<noteq> PStr mood) params)"

definition without_cuisine ::
  "database \<Rightarrow> clause list \<Rightarrow> param list \<Rightarrow> string option \<Rightarrow> string \<Rightarrow> db_error + restaurant list" where
  "without_cuisine db query params mood normalized_cuisine =
     (if truthy_str mood
      then execute db (filter (\<lambda>c. c \<noteq> Mood_is) (filter (\<lambda>c. c \<noteq> Cuisine_is) query))
             (filter (\<lambda>p. p \<noteq> PStr (the mood) \<and> p \<noteq> PStr normalized_cuisine) params)
      else execute db (filter (\<lambda>c. c \<noteq> Cuisine_is) query)
             (filter (\<lambda>p. p \<noteq> PStr normalized_cuisine) params))"

definition city_fallback :: "database \<Rightarrow> string \<Rightarrow> db_error + fallback" where
  "city_fallback db normalized_city =
     (case execute db [City_is] [PStr normalized_city] of
        Inl e \<Rightarrow> Inl e
      | Inr city_restaurants \<Rightarrow>
          Inr \<lparr>available_cuisines =
                 sort (remdups (map (\<lambda>r. lower (r_cuisine r))
                                    (filter (\<lambda>r. r_cuisine r \<noteq> []) city_restaurants))),
               city_restaurant_count = length city_restaurants\<rparr>)"

definition search ::
  "database \<Rightarrow> int option \<Rightarrow> string \<Rightarrow> string option \<Rightarrow> string option
     \<Rightarrow> db_error + restaurant list \<times> fallback option" where
  "search db group_size normalized_city normalized_cuisine mood =
     (let query = build_query group_size normalized_city normalized_cuisine mood;
          params = build_params group_size normalized_city normalized_cuisine mood
      in case execute db query params of
           Inl e \<Rightarrow> Inl e
         | Inr restaurants0 \<Rightarrow>
             (case (if restaurants0 = [] \<and> truthy_str mood
                    then without_mood db query params (the mood) else Inr restaurants0) of
                Inl e \<Rightarrow> Inl e
              | Inr restaurants1 \<Rightarrow>
                  (case (if restaurants1 = [] \<and> truthy_str normalized_cuisine
                         then without_cuisine db query params mood (the normalized_cuisine)
                         else Inr restaurants1) of
                     Inl e \<Rightarrow> Inl e
                   | Inr restaurants \<Rightarrow>
                       (if restaurants = [] \<and> normalized_city \<noteq> []
                        then (case city_fallback db normalized_city of
                                Inl e \<Rightarrow> Inl e
                              | Inr fallback_suggestions \<Rightarrow> Inr (restaurants, Some fallback_suggestions))
                        else Inr (restaurants, None)))))"

subsection \<open>\<^verbatim>\<open>get_recommendations\<close>\<close>

record query_params =
  qp_city :: "string option"
  qp_normalized_city :: "string option"
  qp_occasion :: "string option"
  qp_derived_mood :: "string option"
  qp_cuisine_preference :: "string option"
  qp_normalized_cuisine :: "string option"
  qp_group_size :: "int option"

record normalization_info =
  ni_city :: "(string \<times> string) option"
  ni_cuisine :: "(string \<times> string) option"

record recommendations =
  rec_status :: string
  rec_count :: nat
  rec_query_params :: query_params
  rec_normalization_info :: normalization_info
  rec_fallback_suggestions :: "fallback option"
  rec_data :: "restaurant list"

datatype response =
    Failed failure
  | Insufficient_info "string list"
  | Recommended recommendations

fun status :: "response \<Rightarrow> string" where
  "status (Failed e) = ''error''"
| "status (Insufficient_info available_cities) = ''insufficient_info''"
| "status (Recommended r) = rec_status r"

text \<open>Lines 357-365.\<close>

fun group_size_int :: "int_arg \<Rightarrow> failure + int option" where
  "group_size_int No_value = Inr None"
| "group_size_int (Int_value i) = Inr (Some i)"
| "group_size_int (Str_value s) =
     (case int_of_str s of Some i \<Rightarrow> Inr (Some i) | None \<Rightarrow> Inl (Invalid_group_size s))"

definition get_recommendations ::
  "store \<Rightarrow> string option \<Rightarrow> string option \<Rightarrow> string option \<Rightarrow> int_arg \<Rightarrow> response" where
  "get_recommendations st city occasion cuisine_preference group_size =
     (case connection st of
        None \<Rightarrow> Failed Db_connection_error
      | Some db \<Rightarrow>
          (case group_size_int group_size of
             Inl e \<Rightarrow> Failed e
           | Inr group_size' \<Rightarrow>
               (let normalized_city =
                      (if truthy_str city then normalize_city (catalog st) city else None);
                    normalized_cuisine =
                      (if truthy_str cuisine_preference
                       then normalize_cuisine (catalog st) cuisine_preference else None)
                in if \<not> truthy_str normalized_city
                   then Insufficient_info (take 10 (sort (AVAILABLE_CITIES (catalog st))))
                   else
                     (let mood = derive_mood occasion
                      in case search db group_size' (the normalized_city) normalized_cuisine mood of
                           Inl e \<Rightarrow> Failed (Raised e)
                         | Inr (restaurants, fallback_suggestions) \<Rightarrow>
                             (let result_data = rank_results mood normalized_cuisine restaurants
                              in Recommended
                                   \<lparr>rec_status = (if result_data \<noteq> [] then ''success'' else ''no_results''),
                                    rec_count = length result_data,
                                    rec_query_params =
                                      \<lparr>qp_city = city,
                                       qp_normalized_city = normalized_city,
                                       qp_occasion = occasion,
                                       qp_derived_mood = mood,
                                       qp_cuisine_preference = cuisine_preference,
                                       qp_normalized_cuisine = normalized_cuisine,
                                       qp_group_size = group_size'\<rparr>,
                                    rec_normalization_info =
                                      \<lparr>ni_city =
                                         (if truthy_str city \<and> lower (the city) \<noteq> the normalized_city
                                          then Some (the city, the normalized_city) else None),
                                       ni_cuisine =
                                         (if truthy_str cuisine_preference \<and> truthy_str normalized_cuisine
                                             \<and> lower (the cuisine_preference) \<noteq> the normalized_cuisine
                                          then Some (the cuisine_preference, the normalized_cuisine)
                                          else None)\<rparr>,
                                    rec_fallback_suggestions = fallback_suggestions,
                                    rec_data = take 5 result_data\<rparr>)))))"

text \<open>The wording of the specification, for comparison: which of the four levels of the
  relaxation ends the search, when every query is run as the specification describes it (the
  constraint dropped, the others kept).\<close>

definition matching ::
  "database \<Rightarrow> int option \<Rightarrow> string \<Rightarrow> string option \<Rightarrow> string option \<Rightarrow> restaurant list" where
  "matching db group_size city cuisine mood =
     filter (\<lambda>r. (case group_size of None \<Rightarrow> True | Some n \<Rightarrow> r_available_capacity r \<ge> n)
                 \<and> lower (r_city r) = lower city
                 \<and> (case cuisine of None \<Rightarrow> True | Some c \<Rightarrow> lower (r_cuisine r) = lower c)
                 \<and> (case mood of None \<Rightarrow> True | Some m \<Rightarrow> lower (r_mood r) = lower m))
            (tbl_restaurants db)"

text \<open>An argument that is falsy constrains nothing.\<close>

fun given :: "string option \<Rightarrow> string option" where
  "given None = None"
| "given (Some s) = (if s = [] then None else Some s)"

definition relaxed ::
  "database \<Rightarrow> int option \<Rightarrow> string \<Rightarrow> string option \<Rightarrow> string option \<Rightarrow> restaurant list" where
  "relaxed db group_size city cuisine mood =
     (let full = matching db group_size city (given cuisine) (given mood);
          no_mood = (if full = [] \<and> given mood \<noteq> None
                     then matching db group_size city (given cuisine) None else full)
      in if no_mood = [] \<and> given cuisine \<noteq> None
         then matching db group_size city None None else no_mood)"

subsection \<open>\<^verbatim>\<open>book_restaurant\<close>\<close>

record confirmation =
  confirmation_id :: int
  booked_restaurant :: restaurant
  booked_time :: string
  booked_party_size :: int
  booked_customer_name :: string
  booked_contact_number :: string

datatype booking =
    Incomplete "string list"
  | Booking_failed failure
  | Not_found
  | Unavailable_time "string list"
  | Insufficient_capacity int int
  | Booked confirmation

fun booking_status :: "booking \<Rightarrow> string" where
  "booking_status (Incomplete missing_fields) = ''incomplete''"
| "booking_status (Booking_failed e) = ''error''"
| "booking_status Not_found = ''not_found''"
| "booking_status (Unavailable_time available_times) = ''unavailable_time''"
| "booking_status (Insufficient_capacity available_capacity requested_size) = ''insufficient_capacity''"
| "booking_status (Booked c) = ''success''"

text \<open>Lines 537-551.\<close>

definition booking_missing_fields ::
  "string option \<Rightarrow> string option \<Rightarrow> int_arg \<Rightarrow> string option \<Rightarrow> string option \<Rightarrow> string list" where
  "booking_missing_fields restaurant_name reservation_time party_size customer_name contact_number =
     (if \<not> truthy_str restaurant_name then [''restaurant name''] else [])
     @ (if \<not> truthy_str reservation_time then [''reservation time''] else [])
     @ (if \<not> truthy_arg party_size then [''party size''] else [])
     @ (if int_of_arg party_size = None then [''valid party size (must be a number)''] else [])
     @ (if \<not> truthy_str customer_name then [''customer name''] else [])
     @ (if \<not> truthy_str contact_number then [''contact number''] else [])"

text \<open>Lines 572-580: the first row whose name matches the pattern and, when a city was
  resolved, whose city is that one.\<close>

definition find_restaurant :: "database \<Rightarrow> string \<Rightarrow> string option \<Rightarrow> restaurant option" where
  "find_restaurant db restaurant_name normalized_city =
     find (\<lambda>r. sql_like (lower (''%'' @ restaurant_name @ ''%'')) (lower (r_name r))
               \<and> (truthy_str normalized_city \<longrightarrow> lower (r_city r) = lower (the normalized_city)))
          (tbl_restaurants db)"

text \<open>
  What the schema of lines 49-76 admits.  A column \<^verbatim>\<open>VARCHAR(n)\<close> takes a text of at most
  \<open>n\<close> characters, and a longer one only when everything after the first \<open>n\<close> characters
  is spaces, which are then cut off; a column \<^verbatim>\<open>INTEGER\<close> takes the numbers of 32 bits.
\<close>

definition varchar :: "nat \<Rightarrow> string \<Rightarrow> string option" where
  "varchar n s = (if list_all (\<lambda>c. c = CHR '' '') (drop n s) then Some (take n s) else None)"

definition int4 :: "int \<Rightarrow> bool" where
  "int4 i = (- 2147483648 \<le> i \<and> i \<le> 2147483647)"

text \<open>
  Lines 614-620: the \<^verbatim>\<open>INSERT\<close> into \<^verbatim>\<open>reservations\<close>, which raises when the driver cannot
  quote a parameter or when a value does not fit its column (\<^verbatim>\<open>customer_name VARCHAR(255)\<close>,
  \<^verbatim>\<open>contact_number VARCHAR(20)\<close>, \<^verbatim>\<open>party_size INTEGER\<close>, \<^verbatim>\<open>reservation_time VARCHAR(20)\<close>).
  Which of several violations is reported makes no difference to the tool, whose \<^verbatim>\<open>except\<close>
  turns each into the status \<open>error\<close>.  A refused \<^verbatim>\<open>INSERT\<close> leaves the database as it was.
\<close>

definition insert_refusal :: "string \<Rightarrow> string \<Rightarrow> int \<Rightarrow> string \<Rightarrow> db_error option" where
  "insert_refusal customer_name contact_number party_size reservation_time =
     (if \<not> (adaptable customer_name \<and> adaptable contact_number \<and> adaptable reservation_time)
      then Some Nul_character
      else if varchar 255 customer_name = None \<or> varchar 20 contact_number = None
              \<or> varchar 20 reservation_time = None
      then Some Value_too_long
      else if \<not> int4 party_size then Some Integer_out_of_range
      else None)"

definition insert_reservation ::
  "database \<Rightarrow> int \<Rightarrow> string \<Rightarrow> string \<Rightarrow> int \<Rightarrow> string \<Rightarrow> db_error + int \<times> database" where
  "insert_reservation db restaurant_id customer_name contact_number party_size reservation_time =
     (case insert_refusal customer_name contact_number party_size reservation_time of
        Some e \<Rightarrow> Inl e
      | None \<Rightarrow>
          Inr (next_reservation_id db,
               db\<lparr>tbl_reservations := tbl_reservations db @
                      [\<lparr>res_id = next_reservation_id db,
                        res_restaurant_id = restaurant_id,
                        res_customer_name = the (varchar 255 customer_name),
                        res_contact_number = the (varchar 20 contact_number),
                        res_party_size = party_size,
                        res_reservation_time = the (varchar 20 reservation_time)\<rparr>],
                  next_reservation_id := next_reservation_id db + 1\<rparr>))"

text \<open>Lines 629-633: the \<^verbatim>\<open>UPDATE ... WHERE id = %s\<close>, which raises when the driver cannot
  quote one of the slots or when the new capacity does not fit \<^verbatim>\<open>available_capacity INTEGER\<close>.\<close>

definition update_refusal :: "int \<Rightarrow> string list \<Rightarrow> db_error option" where
  "update_refusal new_capacity available_reservations =
     (if \<not> list_all adaptable available_reservations then Some Nul_character
      else if \<not> int4 new_capacity then Some Integer_out_of_range
      else None)"

definition update_restaurant ::
  "database \<Rightarrow> int \<Rightarrow> int \<Rightarrow> string list \<Rightarrow> db_error + database" where
  "update_restaurant db restaurant_id new_capacity available_reservations =
     (case update_refusal new_capacity available_reservations of
        Some e \<Rightarrow> Inl e
      | None \<Rightarrow>
          Inr (db\<lparr>tbl_restaurants :=
                    map (\<lambda>r. if r_id r = restaurant_id
                              then r\<lparr>r_available_capacity := new_capacity,
                                     r_available_reservations := available_reservations\<rparr>
                              else r)
                        (tbl_restaurants db)\<rparr>))"

text \<open>Lines 572-579: the \<^verbatim>\<open>SELECT\<close> raises when the driver cannot quote the name pattern or
  the city.\<close>

definition select_refusal :: "string \<Rightarrow> string option \<Rightarrow> db_error option" where
  "select_refusal restaurant_name normalized_city =
     (if \<not> adaptable (''%'' @ restaurant_name @ ''%'')
         \<or> (truthy_str normalized_city \<and> \<not> adaptable (the normalized_city))
      then Some Nul_character else None)"

text \<open>
  Lines 537-662.  The connection commits every statement as it is executed
  (\<^verbatim>\<open>conn.autocommit = True\<close>, line 31): when the \<^verbatim>\<open>UPDATE\<close> raises, the reservation the
  \<^verbatim>\<open>INSERT\<close> wrote stays.  Every exception after the connection check ends in the
  \<^verbatim>\<open>except\<close> clause of lines 657-658 and the status \<open>error\<close>.
\<close>

definition book_restaurant ::
  "store \<Rightarrow> string option \<Rightarrow> string option \<Rightarrow> int_arg \<Rightarrow> string option \<Rightarrow> string option
     \<Rightarrow> string option \<Rightarrow> booking \<times> store" where
  "book_restaurant st restaurant_name reservation_time party_size customer_name contact_number city =
     (case booking_missing_fields restaurant_name reservation_time party_size customer_name
             contact_number of
        m # ms \<Rightarrow> (Incomplete (m # ms), st)
      | [] \<Rightarrow>
          (case connection st of
             None \<Rightarrow> (Booking_failed Db_connection_error, st)
           | Some db \<Rightarrow>
               (let party_size' = the (int_of_arg party_size);
                    normalized_city =
                      (if truthy_str city then normalize_city (catalog st) city else None)
                in case select_refusal (the restaurant_name) normalized_city of
                     Some e \<Rightarrow> (Booking_failed (Raised e), st)
                   | None \<Rightarrow>
                     (case find_restaurant db (the restaurant_name) normalized_city of
                        None \<Rightarrow> (Not_found, st)
                      | Some restaurant \<Rightarrow>
                          if the reservation_time \<notin> set (r_available_reservations restaurant)
                          then (Unavailable_time (r_available_reservations restaurant), st)
                          else if party_size' > r_available_capacity restaurant
                          then (Insufficient_capacity (r_available_capacity restaurant) party_size', st)
                          else
                            (case insert_reservation db (r_id restaurant) (the customer_name)
                                    (the contact_number) party_size' (the reservation_time) of
                               Inl e \<Rightarrow> (Booking_failed (Raised e), st)
                             | Inr (reservation_id, db') \<Rightarrow>
                                 (let new_capacity = r_available_capacity restaurant - party_size';
                                      available_reservations =
                                        remove1 (the reservation_time)
                                          (r_available_reservations restaurant)
                                  in case update_restaurant db' (r_id restaurant) new_capacity
                                            available_reservations of
                                       Inl e \<Rightarrow>
                                         (Booking_failed (Raised e), st\<lparr>connection := Some db'\<rparr>)
                                     | Inr db'' \<Rightarrow>
                                         (Booked
                                            \<lparr>confirmation_id = reservation_id,
                                             booked_restaurant = restaurant,
                                             booked_time = the reservation_time,
                                             booked_party_size = party_size',
                                             booked_customer_name = the customer_name,
                                             booked_contact_number = the contact_number\<rparr>,
                                          st\<lparr>connection := Some db''\<rparr>)))))))"

subsection \<open>\<^verbatim>\<open>validate_booking_info\<close>\<close>

record validation =
  validation_status :: string
  missing_fields :: "string list"
  provided_fields :: "(string \<times> json) list"

fun str_field :: "string \<Rightarrow> string option \<Rightarrow> (string \<times> json) list" where
  "str_field key None = []"
| "str_field key (Some s) = [(key, JStr s)]"

text \<open>\<^verbatim>\<open>party_size\<close> after lines 745-754: unchanged when it is falsy, its integer when it
  converts, \<^verbatim>\<open>None\<close> otherwise.\<close>

definition checked_party_size :: "int_arg \<Rightarrow> (string \<times> json) list" where
  "checked_party_size party_size =
     (if \<not> truthy_arg party_size
      then (case party_size of
              No_value \<Rightarrow> []
            | Int_value i \<Rightarrow> [(''party_size'', JInt i)]
            | Str_value s \<Rightarrow> [(''party_size'', JStr s)])
      else (case int_of_arg party_size of
              Some i \<Rightarrow> [(''party_size'', JInt i)]
            | None \<Rightarrow> []))"

definition validate_booking_info ::
  "string option \<Rightarrow> string option \<Rightarrow> int_arg \<Rightarrow> string option \<Rightarrow> string option
     \<Rightarrow> string option \<Rightarrow> validation" where
  "validate_booking_info restaurant_name reservation_time party_size customer_name contact_number city =
     (let missing =
            (if \<not> truthy_str restaurant_name then [''restaurant_name''] else [])
            @ (if \<not> truthy_str reservation_time then [''reservation_time''] else [])
            @ (if \<not> truthy_arg party_size then [''party_size'']
               else if int_of_arg party_size = None then [''valid_party_size''] else [])
            @ (if \<not> truthy_str customer_name then [''customer_name''] else [])
            @ (if \<not> truthy_str contact_number then [''contact_number''] else [])
            @ (if \<not> truthy_str city then [''city''] else [])
      in \<lparr>validation_status = (if missing \<noteq> [] then ''missing_fields'' else ''complete''),
          missing_fields = missing,
          provided_fields =
            str_field ''restaurant_name'' restaurant_name
            @ str_field ''reservation_time'' reservation_time
            @ checked_party_size party_size
            @ str_field ''customer_name'' customer_name
            @ str_field ''contact_number'' contact_number
            @ str_field ''city'' city\<rparr>)"

subsection \<open>The tools as calls on the store\<close>

text \<open>A call of one of the three tools, with the store it runs on and the store it leaves.\<close>

datatype tool_call =
    Get_recommendations "string option" "string option" "string option" int_arg
  | Book_restaurant "string option" "string option" int_arg "string option" "string option"
      "string option"
  | Validate_booking_info "string option" "string option" int_arg "string option" "string option"
      "string option"

datatype tool_result =
    Recommendation response
  | Booking booking
  | Validation validation

fun call_tool :: "store \<Rightarrow> tool_call \<Rightarrow> tool_result \<times> store" where
  "call_tool st (Get_recommendations city occasion cuisine_preference group_size) =
     (Recommendation (get_recommendations st city occasion cuisine_preference group_size), st)"
| "call_tool st (Book_restaurant restaurant_name reservation_time party_size customer_name
                   contact_number city) =
     (case book_restaurant st restaurant_name reservation_time party_size customer_name
             contact_number city of
        (b, st') \<Rightarrow> (Booking b, st'))"
| "call_tool st (Validate_booking_info restaurant_name reservation_time party_size customer_name
                   contact_number city) =
     (Validation (validate_booking_info restaurant_name reservation_time party_size customer_name
                    contact_number city), st)"

section \<open>A small catalog and database\<close>

text \<open>Three restaurants in one city, used where a statement is tried on concrete data.\<close>

definition roma :: restaurant where
  "roma =
     \<lparr>r_id = 1, r_name = ''Roma'', r_city = ''Austin'', r_address = ''1 Main St'',
      r_cuisine = ''Italian'', r_seating_capacity = 40, r_available_capacity = 12,
      r_available_reservations = [''6:00 PM'', ''8:00 PM''], r_mood = ''casual''\<rparr>"

definition cantina :: restaurant where
  "cantina =
     \<lparr>r_id = 2, r_name = ''Cantina'', r_city = ''Austin'', r_address = ''2 Oak Ave'',
      r_cuisine = ''Mexican'', r_seating_capacity = 30, r_available_capacity = 8,
      r_available_reservations = [''5:00 PM'', ''6:00 PM'', ''7:00 PM'', ''8:00 PM'', ''9:00 PM''],
      r_mood = ''romantic''\<rparr>"

definition lotus :: restaurant where
  "lotus =
     \<lparr>r_id = 3, r_name = ''Lotus'', r_city = ''Austin'', r_address = ''3 Elm Rd'',
      r_cuisine = ''Thai'', r_seating_capacity = 20, r_available_capacity = 6,
      r_available_reservations = [''6:00 PM'', ''7:00 PM'', ''8:00 PM''], r_mood = ''lively''\<rparr>"

definition austin_catalog :: catalog where
  "austin_catalog =
     \<lparr>AVAILABLE_CITIES = [''austin''],
      AVAILABLE_CUISINES = [''italian'', ''mexican'', ''thai''],
      CITY_MAPPINGS = [(''austin'', ''austin'')]\<rparr>"

definition austin_db :: database where
  "austin_db =
     \<lparr>tbl_restaurants = [roma, cantina, lotus], tbl_reservations = [], next_reservation_id = 1\<rparr>"

definition austin :: store where
  "austin = \<lparr>catalog = austin_catalog, connection = Some austin_db\<rparr>"

text \<open>A catalog with twelve cities, in no particular order.\<close>

definition twelve_cities :: store where
  "twelve_cities =
     \<lparr>catalog =
        \<lparr>AVAILABLE_CITIES =
           [''seattle'', ''austin'', ''miami'', ''boston'', ''denver'', ''chicago'', ''portland'',
            ''new york'', ''atlanta'', ''dallas'', ''houston'', ''phoenix''],
         AVAILABLE_CUISINES = [''italian'', ''mexican'', ''thai''],
         CITY_MAPPINGS =
           [(''seattle'', ''seattle''), (''austin'', ''austin''), (''miami'', ''miami''),
            (''boston'', ''boston''), (''denver'', ''denver''), (''chicago'', ''chicago''),
            (''portland'', ''portland''), (''new york'', ''new york''), (''atlanta'', ''atlanta''),
            (''dallas'', ''dallas''), (''houston'', ''houston''), (''phoenix'', ''phoenix''),
            (''nyc'', ''new york''), (''new york city'', ''new york''), (''manhattan'', ''new york'')]\<rparr>,
      connection = Some austin_db\<rparr>"

text \<open>Two tools for trying the dispatcher: one that finds restaurants in one city only and counts
  its runs, and one whose body raises \<^verbatim>\<open>KeyError('city')\<close>.\<close>

definition search_tool :: "(tool_signature, nat) tool" where
  "search_tool =
     \<lparr>fn_signature =
        [(''city'', \<lparr>numeric = False, required = True\<rparr>),
         (''group_size'', \<lparr>numeric = True, required = False\<rparr>)],
      tool_run = (\<lambda>args runs.
        (if map_of args ''city'' = Some (JStr ''Austin'')
         then Inr (JObj [(''status'', JStr ''success''), (''data'', JArr [JStr ''Roma''])])
         else Inr (JObj [(''status'', JStr ''no_results''), (''data'', JArr [])]),
         Suc runs))\<rparr>"

definition faulty_tool :: "(tool_signature, nat) tool" where
  "faulty_tool =
     \<lparr>fn_signature = [],
      tool_run = (\<lambda>args runs. (Inl (KeyError (repr_str ''city'')), Suc runs))\<rparr>"

definition two_tools :: "string \<rightharpoonup> (tool_signature, nat agent) tool" where
  "two_tools = [''search'' \<mapsto> in_agent search_tool, ''faulty'' \<mapsto> in_agent faulty_tool]"

definition fresh_agent :: "nat agent" where
  "fresh_agent = \<lparr>tool_call_id = 0, tool_state = 0\<rparr>"

text \<open>A validator that accepts every call and hands it back as it is, for trying the dispatcher
  with the ids the raw blocks carry.\<close>

definition accept_as_is :: "('sig, 'w) validator" where
  "accept_as_is tool_call sig w = (Inr tool_call, w)"

text \<open>A call block as the system prompt asks for it.\<close>

definition call :: "string \<Rightarrow> (string \<times> json) list \<Rightarrow> int \<Rightarrow> call_block" where
  "call name args i = Block (JObj [(''name'', JStr name), (''arguments'', JObj args), (''id'', JInt i)])"

text \<open>The two tools beside the count of the validator of the specification.\<close>

definition counted_tools :: "string \<rightharpoonup> (tool_signature, nat \<times> nat) tool" where
  "counted_tools = [''search'' \<mapsto> beside_count search_tool, ''faulty'' \<mapsto> beside_count faulty_tool]"

section \<open>Strings\<close>

text \<open>\<^const>\<open>str_contains\<close> is the substring test.\<close>

lemma starts_with_iff: "starts_with s p \<longleftrightarrow> (\<exists>post. s = p @ post)"
  by (induction s p rule: starts_with.induct) auto

lemma str_contains_iff: "str_contains sub s \<longleftrightarrow> (\<exists>pre post. s = pre @ sub @ post)"
proof (induction s)
  case Nil
  then show ?case by simp
next
  case (Cons c cs)
  show ?case
  proof
    assume "str_contains sub (c # cs)"
    then consider "starts_with (c # cs) sub" | "str_contains sub cs" by auto
    then show "\<exists>pre post. c # cs = pre @ sub @ post"
    proof cases
      case 1
      then obtain post where "c # cs = sub @ post" by (auto simp: starts_with_iff)
      then have "c # cs = [] @ sub @ post" by simp
      then show ?thesis by blast
    next
      case 2
      then obtain pre post where "cs = pre @ sub @ post" using Cons.IH by auto
      then have "c # cs = (c # pre) @ sub @ post" by simp
      then show ?thesis by blast
    qed
  next
    assume "\<exists>pre post. c # cs = pre @ sub @ post"
    then obtain pre post where eq: "c # cs = pre @ sub @ post" by auto
    show "str_contains sub (c # cs)"
    proof (cases pre)
      case Nil
      with eq have "starts_with (c # cs) sub" by (auto simp: starts_with_iff)
      then show ?thesis by simp
    next
      case (Cons a pre')
      with eq have "cs = pre' @ sub @ post" by simp
      then have "str_contains sub cs" using Cons.IH by auto
      then show ?thesis by simp
    qed
  qed
qed

lemma first_key_in_None: "first_key_in kvs s = None \<longleftrightarrow> (\<forall>kv\<in>set kvs. \<not> str_contains (fst kv) s)"
  by (induction kvs) (auto split: if_splits)

lemma first_key_in_Some:
  "first_key_in kvs s = Some v \<longleftrightarrow>
     (\<exists>i<length kvs. snd (kvs ! i) = v \<and> str_contains (fst (kvs ! i)) s
        \<and> (\<forall>j<i. \<not> str_contains (fst (kvs ! j)) s))"
proof (induction kvs)
  case Nil
  then show ?case by simp
next
  case (Cons kv kvs)
  obtain k w where kv: "kv = (k, w)" by (cases kv)
  show ?case
  proof (cases "str_contains k s")
    case True
    have "(\<exists>i<length (kv # kvs). snd ((kv # kvs) ! i) = v \<and> str_contains (fst ((kv # kvs) ! i)) s
        \<and> (\<forall>j<i. \<not> str_contains (fst ((kv # kvs) ! j)) s)) \<longleftrightarrow> w = v"
    proof
      assume "\<exists>i<length (kv # kvs). snd ((kv # kvs) ! i) = v \<and> str_contains (fst ((kv # kvs) ! i)) s
        \<and> (\<forall>j<i. \<not> str_contains (fst ((kv # kvs) ! j)) s)"
      then obtain i where i: "snd ((kv # kvs) ! i) = v" "\<forall>j<i. \<not> str_contains (fst ((kv # kvs) ! j)) s"
        by auto
      have "i = 0"
      proof (rule ccontr)
        assume "i \<noteq> 0"
        then have "\<not> str_contains (fst ((kv # kvs) ! 0)) s" using i(2) by blast
        then show False using True kv by simp
      qed
      then show "w = v" using i(1) kv by simp
    next
      assume "w = v"
      then have "0 < length (kv # kvs) \<and> snd ((kv # kvs) ! 0) = v \<and> str_contains (fst ((kv # kvs) ! 0)) s
        \<and> (\<forall>j<0. \<not> str_contains (fst ((kv # kvs) ! j)) s)" using True kv by simp
      then show "\<exists>i<length (kv # kvs). snd ((kv # kvs) ! i) = v \<and> str_contains (fst ((kv # kvs) ! i)) s
        \<and> (\<forall>j<i. \<not> str_contains (fst ((kv # kvs) ! j)) s)" by blast
    qed
    then show ?thesis using True kv by simp
  next
    case False
    have "(\<exists>i<length (kv # kvs). snd ((kv # kvs) ! i) = v \<and> str_contains (fst ((kv # kvs) ! i)) s
        \<and> (\<forall>j<i. \<not> str_contains (fst ((kv # kvs) ! j)) s)) \<longleftrightarrow>
      (\<exists>i<length kvs. snd (kvs ! i) = v \<and> str_contains (fst (kvs ! i)) s
        \<and> (\<forall>j<i. \<not> str_contains (fst (kvs ! j)) s))" (is "?L \<longleftrightarrow> ?R")
    proof
      assume ?L
      then obtain i where i: "i < length (kv # kvs)" "snd ((kv # kvs) ! i) = v"
        "str_contains (fst ((kv # kvs) ! i)) s" "\<forall>j<i. \<not> str_contains (fst ((kv # kvs) ! j)) s"
        by auto
      from i(3) False kv have "i \<noteq> 0" by (cases i) auto
      then obtain i' where i': "i = Suc i'" by (cases i) auto
      have "\<forall>j<i'. \<not> str_contains (fst (kvs ! j)) s"
      proof (intro allI impI)
        fix j assume "j < i'"
        then have "Suc j < i" using i' by simp
        then have "\<not> str_contains (fst ((kv # kvs) ! Suc j)) s" using i(4) by blast
        then show "\<not> str_contains (fst (kvs ! j)) s" by simp
      qed
      with i i' show ?R by auto
    next
      assume ?R
      then obtain i where i: "i < length kvs" "snd (kvs ! i) = v"
        "str_contains (fst (kvs ! i)) s" "\<forall>j<i. \<not> str_contains (fst (kvs ! j)) s"
        by auto
      have "\<forall>j<Suc i. \<not> str_contains (fst ((kv # kvs) ! j)) s"
      proof (intro allI impI)
        fix j assume "j < Suc i"
        then show "\<not> str_contains (fst ((kv # kvs) ! j)) s"
          using i(4) False kv by (cases j) auto
      qed
      with i have "Suc i < length (kv # kvs) \<and> snd ((kv # kvs) ! Suc i) = v
         \<and> str_contains (fst ((kv # kvs) ! Suc i)) s
         \<and> (\<forall>j<Suc i. \<not> str_contains (fst ((kv # kvs) ! j)) s)" by simp
      then show ?L by blast
    qed
    then show ?thesis using False kv Cons.IH by simp
  qed
qed

section \<open>Occasion to mood\<close>

text \<open>
  C6, as the specification words it (the table keys tried longest first, \<open>celebration\<close>
  before \<open>business\<close> before \<open>friends\<close>, \<open>family\<close>, \<open>date\<close>), fails on the code: the
  occasion \<open>business date\<close> contains the keys \<open>date\<close> and \<open>business\<close>; the code takes
  \<open>date\<close>, the first key of the table, and derives \<open>romantic\<close>, while the longer key
  \<open>business\<close> would give \<open>sophisticated\<close>.
\<close>

theorem derive_mood_not_longest_first:
  "derive_mood (Some ''business date'') = Some ''romantic''
   \<and> derive_mood_longest_first (Some ''business date'') = Some ''sophisticated''"
  by code_simp

text \<open>
  C6, amended: the derived mood is the value of the first key of the table, in the order the
  table is written (\<open>date\<close>, \<open>business\<close>, \<open>family\<close>, \<open>friends\<close>, \<open>celebration\<close>), that
  occurs in the lower-cased occasion; an occasion that is missing or empty, or that contains no
  key of the table, gives no mood.
\<close>

theorem derive_mood_declaration_order:
  "(derive_mood occasion = Some m \<longleftrightarrow>
      truthy_str occasion
      \<and> (\<exists>i<length mood_mapping.
            snd (mood_mapping ! i) = m
            \<and> str_contains (fst (mood_mapping ! i)) (lower (the occasion))
            \<and> (\<forall>j<i. \<not> str_contains (fst (mood_mapping ! j)) (lower (the occasion)))))
   \<and> (derive_mood occasion = None \<longleftrightarrow>
        \<not> truthy_str occasion
        \<or> (\<forall>kv\<in>set mood_mapping. \<not> str_contains (fst kv) (lower (the occasion))))
   \<and> map fst mood_mapping = [''date'', ''business'', ''family'', ''friends'', ''celebration'']
   \<and> map snd mood_mapping = [''romantic'', ''sophisticated'', ''casual'', ''casual'', ''lively'']"
proof (intro conjI)
  show "derive_mood occasion = Some m \<longleftrightarrow>
      truthy_str occasion
      \<and> (\<exists>i<length mood_mapping.
            snd (mood_mapping ! i) = m
            \<and> str_contains (fst (mood_mapping ! i)) (lower (the occasion))
            \<and> (\<forall>j<i. \<not> str_contains (fst (mood_mapping ! j)) (lower (the occasion))))"
    unfolding derive_mood_def by (simp add: first_key_in_Some)
  show "derive_mood occasion = None \<longleftrightarrow>
        \<not> truthy_str occasion
        \<or> (\<forall>kv\<in>set mood_mapping. \<not> str_contains (fst kv) (lower (the occasion)))"
    unfolding derive_mood_def by (simp add: first_key_in_None)
  show "map fst mood_mapping = [''date'', ''business'', ''family'', ''friends'', ''celebration'']"
    by (simp add: mood_mapping_def)
  show "map snd mood_mapping = [''romantic'', ''sophisticated'', ''casual'', ''casual'', ''lively'']"
    by (simp add: mood_mapping_def)
qed

theorem derive_mood_declaration_order_witness:
  "derive_mood (Some ''Business Date'') = Some ''romantic''
   \<and> (\<exists>i<length mood_mapping.
         snd (mood_mapping ! i) = ''romantic''
         \<and> str_contains (fst (mood_mapping ! i)) (lower ''Business Date'')
         \<and> (\<forall>j<i. \<not> str_contains (fst (mood_mapping ! j)) (lower ''Business Date'')))"
proof -
  have a: "derive_mood (Some ''Business Date'') = Some ''romantic''"
    by code_simp
  with derive_mood_declaration_order [of "Some ''Business Date''" "''romantic''"]
  show ?thesis by simp
qed

section \<open>Ranking\<close>

text \<open>\<^const>\<open>sort_desc\<close> is a stable sort into descending order.\<close>

lemma sort_desc_mset: "mset (sort_desc k xs) = mset xs"
  by (simp add: sort_desc_def)

lemma sort_desc_descending: "descending k (sort_desc k xs)"
  by (simp add: sort_desc_def descending_def rev_map [symmetric])

lemma sort_desc_stable: "filter (\<lambda>y. k y = v) (sort_desc k xs) = filter (\<lambda>y. k y = v) xs"
proof -
  have "filter (\<lambda>y. k y = v) (sort_desc k xs) = rev (filter (\<lambda>y. k y = v) (sort_key k (rev xs)))"
    by (simp add: sort_desc_def rev_filter)
  also have "\<dots> = rev (filter (\<lambda>y. k y = v) (rev xs))"
    by (simp only: sort_key_stable)
  also have "\<dots> = filter (\<lambda>y. k y = v) xs"
    by (simp add: rev_filter)
  finally show ?thesis .
qed

lemma sort_desc_const: "sort_desc (\<lambda>x. c) xs = xs"
  by (simp add: sort_desc_def sort_key_const)

lemma descending_iff: "descending k xs \<longleftrightarrow> sorted_wrt (\<lambda>a b. k b \<le> k a) xs"
  by (simp add: descending_def rev_map [symmetric] sorted_wrt_map sorted_wrt_rev)

lemma descending_filter: "descending k xs \<Longrightarrow> descending k (filter P xs)"
  by (simp add: descending_iff sorted_wrt_filter)

lemma rank_results_eq: "rank_results mood cuisine rows = three_stable_sorts mood cuisine rows"
proof -
  have m: "\<not> truthy_str mood \<Longrightarrow> mood_match mood = (\<lambda>x. False)"
    by (simp add: mood_match_def fun_eq_iff)
  have c: "\<not> truthy_str cuisine \<Longrightarrow> cuisine_match cuisine = (\<lambda>x. False)"
    by (simp add: cuisine_match_def fun_eq_iff)
  have m': "truthy_str mood \<Longrightarrow> mood_match mood = (\<lambda>x. lower (r_mood x) = lower (the mood))"
    by (simp add: mood_match_def fun_eq_iff)
  have c': "truthy_str cuisine \<Longrightarrow> cuisine_match cuisine = (\<lambda>x. lower (r_cuisine x) = lower (the cuisine))"
    by (simp add: cuisine_match_def fun_eq_iff)
  have s: "slot_count = (\<lambda>x. length (r_available_reservations x))"
    by (simp add: slot_count_def fun_eq_iff)
  show ?thesis
  proof (cases "rows = []")
    case True
    then show ?thesis
      by (simp add: rank_results_def three_stable_sorts_def sort_desc_def)
  next
    case False
    then show ?thesis
      by (cases "truthy_str mood"; cases "truthy_str cuisine")
         (simp_all add: rank_results_def three_stable_sorts_def Let_def m c m' c' s sort_desc_const)
  qed
qed

lemma three_sorts_by_cuisine:
  "filter (\<lambda>x. cuisine_match cuisine x = c) (three_stable_sorts mood cuisine rows)
   = filter (\<lambda>x. cuisine_match cuisine x = c) (sort_desc (mood_match mood) (sort_desc slot_count rows))"
  by (simp add: three_stable_sorts_def sort_desc_stable)

lemma filter_swap: "filter P (filter Q xs) = filter Q (filter P xs)"
  by (induction xs) auto

lemma filter_both: "filter (\<lambda>x. P x \<and> Q x) xs = filter Q (filter P xs)"
  by (induction xs) auto

lemma three_sorts_by_cuisine_mood:
  "filter (\<lambda>x. cuisine_match cuisine x = c \<and> mood_match mood x = m) (three_stable_sorts mood cuisine rows)
   = filter (\<lambda>x. cuisine_match cuisine x = c \<and> mood_match mood x = m) (sort_desc slot_count rows)"
proof -
  let ?C = "\<lambda>x. cuisine_match cuisine x = c" and ?M = "\<lambda>x. mood_match mood x = m"
  have "filter (\<lambda>x. ?C x \<and> ?M x) (three_stable_sorts mood cuisine rows)
        = filter ?M (filter ?C (three_stable_sorts mood cuisine rows))"
    by (rule filter_both)
  also have "\<dots> = filter ?M (filter ?C (sort_desc (mood_match mood) (sort_desc slot_count rows)))"
    by (simp only: three_sorts_by_cuisine)
  also have "\<dots> = filter ?C (filter ?M (sort_desc (mood_match mood) (sort_desc slot_count rows)))"
    by (rule filter_swap)
  also have "\<dots> = filter ?C (filter ?M (sort_desc slot_count rows))"
    by (simp only: sort_desc_stable)
  also have "\<dots> = filter ?M (filter ?C (sort_desc slot_count rows))"
    by (rule filter_swap)
  also have "\<dots> = filter (\<lambda>x. ?C x \<and> ?M x) (sort_desc slot_count rows)"
    by (rule filter_both [symmetric])
  finally show ?thesis .
qed

lemma three_sorts_ties:
  "filter (\<lambda>x. (cuisine_match cuisine x = c \<and> mood_match mood x = m) \<and> slot_count x = n)
          (three_stable_sorts mood cuisine rows)
   = filter (\<lambda>x. (cuisine_match cuisine x = c \<and> mood_match mood x = m) \<and> slot_count x = n) rows"
proof -
  let ?CM = "\<lambda>x. cuisine_match cuisine x = c \<and> mood_match mood x = m" and ?S = "\<lambda>x. slot_count x = n"
  have "filter (\<lambda>x. ?CM x \<and> ?S x) (three_stable_sorts mood cuisine rows)
        = filter ?S (filter ?CM (three_stable_sorts mood cuisine rows))"
    by (rule filter_both)
  also have "\<dots> = filter ?S (filter ?CM (sort_desc slot_count rows))"
    by (simp only: three_sorts_by_cuisine_mood)
  also have "\<dots> = filter ?CM (filter ?S (sort_desc slot_count rows))"
    by (rule filter_swap)
  also have "\<dots> = filter ?CM (filter ?S rows)"
    by (simp only: sort_desc_stable)
  also have "\<dots> = filter ?S (filter ?CM rows)"
    by (rule filter_swap)
  also have "\<dots> = filter (\<lambda>x. ?CM x \<and> ?S x) rows"
    by (rule filter_both [symmetric])
  finally show ?thesis .
qed

lemma three_sorts_example:
  assumes "slot_count a = 2" "slot_count b = 5" "slot_count c = 3"
    and "\<not> mood_match mood a" "mood_match mood b" "\<not> mood_match mood c"
    and "cuisine_match cuisine a" "\<not> cuisine_match cuisine b" "\<not> cuisine_match cuisine c"
  shows "three_stable_sorts mood cuisine [a, b, c] = [a, b, c]"
  using assms by (simp add: three_stable_sorts_def sort_desc_def)


text \<open>
  C1: the ranking of \<^verbatim>\<open>get_recommendations\<close> is the composition of three stable descending
  sorts, by the number of open slots, then by "mood equals the requested mood", then by "cuisine
  equals the requested cuisine" (a sort the code skips has a key that is false on every row).  So
  the result is a rearrangement of the rows in which cuisine matches come first, mood matches come
  first among rows that agree on the cuisine match, rows that agree on both are in descending
  order of the slot count, and rows that agree on all three keep the order they came in.  For
  three rows with slot counts 2, 5, 3, mood matches no, yes, no and cuisine matches yes, no, no
  the row matching the cuisine is first: the order is the first, the second, the third.
\<close>

theorem rank_results_three_stable_sorts:
  "rank_results mood cuisine rows = three_stable_sorts mood cuisine rows
   \<and> mset (rank_results mood cuisine rows) = mset rows
   \<and> descending (cuisine_match cuisine) (rank_results mood cuisine rows)
   \<and> (\<forall>c. descending (mood_match mood)
             (filter (\<lambda>x. cuisine_match cuisine x = c) (rank_results mood cuisine rows)))
   \<and> (\<forall>c m. descending slot_count
             (filter (\<lambda>x. cuisine_match cuisine x = c \<and> mood_match mood x = m)
                     (rank_results mood cuisine rows)))
   \<and> (\<forall>c m n. filter (\<lambda>x. (cuisine_match cuisine x = c \<and> mood_match mood x = m) \<and> slot_count x = n)
                      (rank_results mood cuisine rows)
               = filter (\<lambda>x. (cuisine_match cuisine x = c \<and> mood_match mood x = m) \<and> slot_count x = n)
                      rows)
   \<and> (\<forall>a b c. slot_count a = 2 \<and> slot_count b = 5 \<and> slot_count c = 3
          \<and> \<not> mood_match mood a \<and> mood_match mood b \<and> \<not> mood_match mood c
          \<and> cuisine_match cuisine a \<and> \<not> cuisine_match cuisine b \<and> \<not> cuisine_match cuisine c
          \<longrightarrow> rank_results mood cuisine [a, b, c] = [a, b, c])"
proof (intro conjI allI impI)
  show "rank_results mood cuisine rows = three_stable_sorts mood cuisine rows"
    by (rule rank_results_eq)
  show "mset (rank_results mood cuisine rows) = mset rows"
    by (simp add: rank_results_eq three_stable_sorts_def sort_desc_mset)
  show "descending (cuisine_match cuisine) (rank_results mood cuisine rows)"
    by (simp add: rank_results_eq three_stable_sorts_def sort_desc_descending)
  show "descending (mood_match mood)
          (filter (\<lambda>x. cuisine_match cuisine x = c) (rank_results mood cuisine rows))" for c
    by (simp only: rank_results_eq three_sorts_by_cuisine descending_filter sort_desc_descending)
  show "descending slot_count
          (filter (\<lambda>x. cuisine_match cuisine x = c \<and> mood_match mood x = m)
                  (rank_results mood cuisine rows))" for c m
    by (simp only: rank_results_eq three_sorts_by_cuisine_mood descending_filter sort_desc_descending)
  show "filter (\<lambda>x. (cuisine_match cuisine x = c \<and> mood_match mood x = m) \<and> slot_count x = n)
               (rank_results mood cuisine rows)
        = filter (\<lambda>x. (cuisine_match cuisine x = c \<and> mood_match mood x = m) \<and> slot_count x = n)
               rows" for c m n
    by (simp only: rank_results_eq three_sorts_ties)
  show "rank_results mood cuisine [a, b, c] = [a, b, c]"
    if "slot_count a = 2 \<and> slot_count b = 5 \<and> slot_count c = 3
          \<and> \<not> mood_match mood a \<and> mood_match mood b \<and> \<not> mood_match mood c
          \<and> cuisine_match cuisine a \<and> \<not> cuisine_match cuisine b \<and> \<not> cuisine_match cuisine c"
    for a b c
    using that by (simp add: rank_results_eq three_sorts_example)
qed

theorem rank_results_three_stable_sorts_witness:
  "(slot_count roma = 2 \<and> slot_count cantina = 5 \<and> slot_count lotus = 3
    \<and> \<not> mood_match (Some ''romantic'') roma \<and> mood_match (Some ''romantic'') cantina
    \<and> \<not> mood_match (Some ''romantic'') lotus
    \<and> cuisine_match (Some ''italian'') roma \<and> \<not> cuisine_match (Some ''italian'') cantina
    \<and> \<not> cuisine_match (Some ''italian'') lotus)
   \<and> rank_results (Some ''romantic'') (Some ''italian'') [roma, cantina, lotus] = [roma, cantina, lotus]
   \<and> hd (rank_results (Some ''romantic'') (Some ''italian'') [roma, cantina, lotus]) = roma"
proof -
  have h: "slot_count roma = 2 \<and> slot_count cantina = 5 \<and> slot_count lotus = 3
    \<and> \<not> mood_match (Some ''romantic'') roma \<and> mood_match (Some ''romantic'') cantina
    \<and> \<not> mood_match (Some ''romantic'') lotus
    \<and> cuisine_match (Some ''italian'') roma \<and> \<not> cuisine_match (Some ''italian'') cantina
    \<and> \<not> cuisine_match (Some ''italian'') lotus"
    by code_simp
  have "\<forall>a b c. slot_count a = 2 \<and> slot_count b = 5 \<and> slot_count c = 3
          \<and> \<not> mood_match (Some ''romantic'') a \<and> mood_match (Some ''romantic'') b
          \<and> \<not> mood_match (Some ''romantic'') c
          \<and> cuisine_match (Some ''italian'') a \<and> \<not> cuisine_match (Some ''italian'') b
          \<and> \<not> cuisine_match (Some ''italian'') c
          \<longrightarrow> rank_results (Some ''romantic'') (Some ''italian'') [a, b, c] = [a, b, c]"
    using rank_results_three_stable_sorts [of "Some ''romantic''" "Some ''italian''" "[]"]
    by blast
  with h have "rank_results (Some ''romantic'') (Some ''italian'') [roma, cantina, lotus]
               = [roma, cantina, lotus]"
    by blast
  with h show ?thesis by simp
qed

section \<open>No city\<close>

lemma normalize_city_falsy: "\<not> truthy_str city \<Longrightarrow> normalize_city cat city = None"
  by (simp add: normalize_city_def)

lemma resolved_city_eq:
  "(if truthy_str city then normalize_city cat city else None) = normalize_city cat city"
  by (simp add: normalize_city_falsy)

text \<open>
  C5: the city is looked at after the connection has been opened and the group size converted
  (lines 351-365; the first step of the recommendation algorithm of the specification, which
  ends the call with the status \<open>error\<close> when it fails).  A query that gets there, and in
  which no usable city can be resolved, returns status \<open>insufficient_info\<close> with the first
  ten of the sorted available cities, and returns early: the answer is the same for every
  database, occasion and cuisine, so no query is run, no mood derived and nothing relaxed.
\<close>

theorem no_city_insufficient_info:
  assumes "connection st = Some db"
    and "group_size_int group_size = Inr g"
    and "\<not> truthy_str (normalize_city (catalog st) city)"
  shows "get_recommendations st city occasion cuisine_preference group_size
           = Insufficient_info (take 10 (sort (AVAILABLE_CITIES (catalog st))))
         \<and> status (get_recommendations st city occasion cuisine_preference group_size)
             = ''insufficient_info''
         \<and> sorted (take 10 (sort (AVAILABLE_CITIES (catalog st))))
         \<and> length (take 10 (sort (AVAILABLE_CITIES (catalog st)))) \<le> 10
         \<and> set (take 10 (sort (AVAILABLE_CITIES (catalog st)))) \<subseteq> set (AVAILABLE_CITIES (catalog st))
         \<and> (\<forall>db' occasion' cuisine'.
               get_recommendations (st\<lparr>connection := Some db'\<rparr>) city occasion' cuisine' group_size
               = get_recommendations st city occasion cuisine_preference group_size)"
proof -
  have r: "get_recommendations st' city occasion' cuisine' group_size
           = Insufficient_info (take 10 (sort (AVAILABLE_CITIES (catalog st))))"
    if "connection st' = Some db'" "catalog st' = catalog st" for st' db' occasion' cuisine'
    using that assms(2,3)
    by (simp add: get_recommendations_def resolved_city_eq Let_def)
  have a: "get_recommendations st city occasion cuisine_preference group_size
           = Insufficient_info (take 10 (sort (AVAILABLE_CITIES (catalog st))))"
    using r [of st db] assms(1) by simp
  have b: "get_recommendations (st\<lparr>connection := Some db'\<rparr>) city occasion' cuisine' group_size
           = Insufficient_info (take 10 (sort (AVAILABLE_CITIES (catalog st))))" for db' occasion' cuisine'
    using r [of "st\<lparr>connection := Some db'\<rparr>" db'] by simp
  have c: "sorted (take 10 (sort (AVAILABLE_CITIES (catalog st))))"
    by (simp add: sorted_wrt_take)
  have d: "set (take 10 (sort (AVAILABLE_CITIES (catalog st)))) \<subseteq> set (AVAILABLE_CITIES (catalog st))"
    using set_take_subset [of 10 "sort (AVAILABLE_CITIES (catalog st))"] by simp
  show ?thesis using a b c d by simp
qed

theorem no_city_insufficient_info_witness:
  "connection twelve_cities = Some austin_db
   \<and> group_size_int (Str_value '' 4 '') = Inr (Some 4)
   \<and> \<not> truthy_str (normalize_city (catalog twelve_cities) (Some []))
   \<and> get_recommendations twelve_cities (Some []) (Some ''date'') (Some ''thai'') (Str_value '' 4 '')
       = Insufficient_info
           [''atlanta'', ''austin'', ''boston'', ''chicago'', ''dallas'', ''denver'', ''houston'',
            ''miami'', ''new york'', ''phoenix'']"
proof -
  have h1: "connection twelve_cities = Some austin_db"
    by code_simp
  have h2: "group_size_int (Str_value '' 4 '') = Inr (Some 4)"
    by code_simp
  have h3: "\<not> truthy_str (normalize_city (catalog twelve_cities) (Some []))"
    by code_simp
  have h4: "take 10 (sort (AVAILABLE_CITIES (catalog twelve_cities)))
            = [''atlanta'', ''austin'', ''boston'', ''chicago'', ''dallas'', ''denver'', ''houston'',
               ''miami'', ''new york'', ''phoenix'']"
    by code_simp
  from no_city_insufficient_info [OF h1 h2 h3, of "Some ''date''" "Some ''thai''"] h1 h2 h3 h4
  show ?thesis by simp
qed

text \<open>
  The order of the checks when no usable city can be resolved, without any assumption on the
  connection or the group size: a connection that cannot be opened and a group size that is no
  number each end the call with the status \<open>error\<close> before the city is looked at.
\<close>

theorem checks_before_the_city:
  assumes "\<not> truthy_str (normalize_city (catalog st) city)"
  shows "get_recommendations st city occasion cuisine_preference group_size =
           (case connection st of
              None \<Rightarrow> Failed Db_connection_error
            | Some db \<Rightarrow>
                (case group_size_int group_size of
                   Inl e \<Rightarrow> Failed e
                 | Inr g \<Rightarrow> Insufficient_info (take 10 (sort (AVAILABLE_CITIES (catalog st))))))"
  using assms
  by (simp add: get_recommendations_def resolved_city_eq Let_def split: option.splits sum.splits)

theorem checks_before_the_city_witness:
  "\<not> truthy_str (normalize_city (catalog austin) None)
   \<and> get_recommendations austin None None None (Str_value ''abc'')
       = Failed (Invalid_group_size ''abc'')
   \<and> status (get_recommendations austin None None None (Str_value ''abc'')) = ''error''
   \<and> get_recommendations (austin\<lparr>connection := None\<rparr>) None None None No_value
       = Failed Db_connection_error"
proof -
  have h: "\<not> truthy_str (normalize_city (catalog austin) None)"
    by code_simp
  have h': "\<not> truthy_str (normalize_city (catalog (austin\<lparr>connection := None\<rparr>)) None)"
    by code_simp
  have c: "connection austin = Some austin_db" "connection (austin\<lparr>connection := None\<rparr>) = None"
    by code_simp+
  have g: "group_size_int (Str_value ''abc'') = Inl (Invalid_group_size ''abc'')"
    by code_simp
  from checks_before_the_city [OF h, of None None "Str_value ''abc''"] c g
  have a: "get_recommendations austin None None None (Str_value ''abc'')
           = Failed (Invalid_group_size ''abc'')"
    by simp
  from checks_before_the_city [OF h', of None None No_value] c
  have b: "get_recommendations (austin\<lparr>connection := None\<rparr>) None None None No_value
           = Failed Db_connection_error"
    by simp
  from h a b show ?thesis by simp
qed

section \<open>Booking\<close>

lemma find_restaurant_in_table:
  "find_restaurant db n c = Some r \<Longrightarrow> r \<in> set (tbl_restaurants db)"
  unfolding find_restaurant_def by (auto simp: find_Some_iff)

lemma update_only_row:
  assumes "distinct (map r_id rows)" and "r \<in> set rows"
  shows "map (\<lambda>x. if r_id x = r_id r then f x else x) rows
         = map (\<lambda>x. if x = r then f r else x) rows"
proof (rule map_cong [OF refl])
  fix x assume "x \<in> set rows"
  with assms have "r_id x = r_id r \<longleftrightarrow> x = r"
    by (auto simp: distinct_map dest: inj_onD)
  then show "(if r_id x = r_id r then f x else x) = (if x = r then f r else x)"
    by auto
qed

lemma insert_refusal_None:
  "insert_refusal customer_name contact_number party_size reservation_time = None
   \<longleftrightarrow> adaptable customer_name \<and> adaptable contact_number \<and> adaptable reservation_time
       \<and> varchar 255 customer_name \<noteq> None \<and> varchar 20 contact_number \<noteq> None
       \<and> varchar 20 reservation_time \<noteq> None \<and> int4 party_size"
  by (auto simp: insert_refusal_def)

lemma update_refusal_None:
  "update_refusal new_capacity available_reservations = None
   \<longleftrightarrow> list_all adaptable available_reservations \<and> int4 new_capacity"
  by (auto simp: update_refusal_def)

lemma varchar_short: "length s \<le> n \<Longrightarrow> varchar n s = Some s"
  by (simp add: varchar_def)

lemma varchar_None: "varchar n s = None \<longleftrightarrow> (\<exists>c \<in> set (drop n s). c \<noteq> CHR '' '')"
  by (auto simp: varchar_def list_all_iff)

lemma book_restaurant_found:
  assumes "booking_missing_fields restaurant_name (Some T) party_size customer_name contact_number = []"
    and "connection st = Some db"
    and "int_of_arg party_size = Some P"
    and "select_refusal (the restaurant_name) (normalize_city (catalog st) city) = None"
    and "find_restaurant db (the restaurant_name) (normalize_city (catalog st) city) = Some r"
  shows "book_restaurant st restaurant_name (Some T) party_size customer_name contact_number city =
     (if T \<notin> set (r_available_reservations r)
      then (Unavailable_time (r_available_reservations r), st)
      else if P > r_available_capacity r
      then (Insufficient_capacity (r_available_capacity r) P, st)
      else
        (case insert_reservation db (r_id r) (the customer_name) (the contact_number) P T of
           Inl e \<Rightarrow> (Booking_failed (Raised e), st)
         | Inr (reservation_id, db') \<Rightarrow>
             (case update_restaurant db' (r_id r) (r_available_capacity r - P)
                     (remove1 T (r_available_reservations r)) of
                Inl e \<Rightarrow> (Booking_failed (Raised e), st\<lparr>connection := Some db'\<rparr>)
              | Inr db'' \<Rightarrow>
                  (Booked
                     \<lparr>confirmation_id = reservation_id,
                      booked_restaurant = r,
                      booked_time = T,
                      booked_party_size = P,
                      booked_customer_name = the customer_name,
                      booked_contact_number = the contact_number\<rparr>,
                   st\<lparr>connection := Some db''\<rparr>))))"
  using assms
  by (simp add: book_restaurant_def resolved_city_eq Let_def split: sum.splits prod.splits)


lemma book_restaurant_cases:
  assumes "booking_missing_fields restaurant_name (Some T) party_size customer_name contact_number = []"
    and "connection st = Some db"
    and "int_of_arg party_size = Some P"
    and "select_refusal (the restaurant_name) (normalize_city (catalog st) city) = None"
    and "find_restaurant db (the restaurant_name) (normalize_city (catalog st) city) = Some r"
  shows "book_restaurant st restaurant_name (Some T) party_size customer_name contact_number city =
     (if T \<notin> set (r_available_reservations r)
      then (Unavailable_time (r_available_reservations r), st)
      else if P > r_available_capacity r
      then (Insufficient_capacity (r_available_capacity r) P, st)
      else
        (case insert_refusal (the customer_name) (the contact_number) P T of
           Some e \<Rightarrow> (Booking_failed (Raised e), st)
         | None \<Rightarrow>
             (case update_refusal (r_available_capacity r - P)
                     (remove1 T (r_available_reservations r)) of
                Some e \<Rightarrow>
                  (Booking_failed (Raised e),
                   st\<lparr>connection :=
                        Some (snd (projr (insert_reservation db (r_id r) (the customer_name)
                                            (the contact_number) P T)))\<rparr>)
              | None \<Rightarrow>
                  (Booked
                     \<lparr>confirmation_id = next_reservation_id db,
                      booked_restaurant = r,
                      booked_time = T,
                      booked_party_size = P,
                      booked_customer_name = the customer_name,
                      booked_contact_number = the contact_number\<rparr>,
                   st\<lparr>connection :=
                        Some (projr (update_restaurant
                                (snd (projr (insert_reservation db (r_id r) (the customer_name)
                                               (the contact_number) P T)))
                                (r_id r) (r_available_capacity r - P)
                                (remove1 T (r_available_reservations r))))\<rparr>))))"
  by (simp add: book_restaurant_found [OF assms] insert_reservation_def update_restaurant_def
      split: option.splits)

lemma insert_keeps_restaurants:
  "insert_reservation db i cn ct P T = Inr (n, db') \<Longrightarrow> tbl_restaurants db' = tbl_restaurants db"
  by (auto simp: insert_reservation_def split: option.splits)

lemma update_rows:
  "update_restaurant db i c slots = Inr db' \<Longrightarrow>
     tbl_restaurants db' =
       map (\<lambda>x. if r_id x = i then x\<lparr>r_available_capacity := c, r_available_reservations := slots\<rparr>
                 else x) (tbl_restaurants db)"
  by (auto simp: update_restaurant_def split: option.splits)

text \<open>
  C4: a booking that reaches a restaurant (all fields given, the database reached, the party size
  a number \<open>P\<close>, the lookup run and the restaurant \<open>r\<close> found, with available capacity
  \<open>C\<close> and slot list \<open>slots\<close>) succeeds exactly when the time \<open>T\<close> is in the slot
  list, \<open>P \<le> C\<close>, and the database takes the reservation and the new row.  When it
  succeeds, the row of the restaurant gets capacity \<open>C - P\<close> and the slot list without its
  first occurrence of \<open>T\<close> (one occurrence less, everything else kept), and no other row
  changes.  When \<open>T\<close> is not in the slot list the status is \<open>unavailable_time\<close>, and
  when \<open>T\<close> is in the list and \<open>P > C\<close> it is \<open>insufficient_capacity\<close>; in both
  cases the store is left as it was.  The status is \<open>error\<close> exactly when the time and the
  capacity allow the booking and the database refuses the \<^verbatim>\<open>INSERT\<close> or the \<^verbatim>\<open>UPDATE\<close>;
  whenever the booking does not succeed, the rows of the restaurants are what they were.
\<close>

theorem book_restaurant_round_trip:
  assumes complete:
      "booking_missing_fields restaurant_name (Some T) party_size customer_name contact_number = []"
    and conn: "connection st = Some db"
    and size: "int_of_arg party_size = Some P"
    and quoted: "select_refusal (the restaurant_name) (normalize_city (catalog st) city) = None"
    and found: "find_restaurant db (the restaurant_name) (normalize_city (catalog st) city) = Some r"
    and cap: "r_available_capacity r = C"
    and slots: "r_available_reservations r = slots"
  shows
    "(booking_status (fst (book_restaurant st restaurant_name (Some T) party_size customer_name
         contact_number city)) = ''success''
      \<longleftrightarrow> T \<in> set slots \<and> P \<le> C
          \<and> insert_refusal (the customer_name) (the contact_number) P T = None
          \<and> update_refusal (C - P) (remove1 T slots) = None)
     \<and> (booking_status (fst (book_restaurant st restaurant_name (Some T) party_size customer_name
            contact_number city)) = ''success'' \<longrightarrow>
          (\<exists>db'. connection (snd (book_restaurant st restaurant_name (Some T) party_size
                     customer_name contact_number city)) = Some db'
             \<and> tbl_restaurants db' =
                 map (\<lambda>x. if r_id x = r_id r
                           then x\<lparr>r_available_capacity := C - P,
                                  r_available_reservations := remove1 T slots\<rparr>
                           else x)
                     (tbl_restaurants db)
             \<and> (distinct (map r_id (tbl_restaurants db)) \<longrightarrow>
                  tbl_restaurants db' =
                    map (\<lambda>x. if x = r
                              then r\<lparr>r_available_capacity := C - P,
                                     r_available_reservations := remove1 T slots\<rparr>
                              else x)
                        (tbl_restaurants db)))
          \<and> mset (remove1 T slots) + {#T#} = mset slots
          \<and> length (remove1 T slots) + 1 = length slots)
     \<and> (T \<notin> set slots \<longrightarrow>
          book_restaurant st restaurant_name (Some T) party_size customer_name contact_number city
          = (Unavailable_time slots, st))
     \<and> (T \<in> set slots \<and> C < P \<longrightarrow>
          book_restaurant st restaurant_name (Some T) party_size customer_name contact_number city
          = (Insufficient_capacity C P, st))
     \<and> (booking_status (fst (book_restaurant st restaurant_name (Some T) party_size customer_name
            contact_number city)) = ''error''
         \<longleftrightarrow> T \<in> set slots \<and> P \<le> C
             \<and> (insert_refusal (the customer_name) (the contact_number) P T \<noteq> None
                 \<or> update_refusal (C - P) (remove1 T slots) \<noteq> None))
     \<and> (booking_status (fst (book_restaurant st restaurant_name (Some T) party_size customer_name
            contact_number city)) \<noteq> ''success'' \<longrightarrow>
          (\<exists>db'. connection (snd (book_restaurant st restaurant_name (Some T) party_size
                     customer_name contact_number city)) = Some db'
             \<and> tbl_restaurants db' = tbl_restaurants db))"
proof -
  let ?book = "book_restaurant st restaurant_name (Some T) party_size customer_name contact_number city"
  let ?ins = "insert_reservation db (r_id r) (the customer_name) (the contact_number) P T"
  let ?dbi = "snd (projr ?ins)"
  let ?upd = "update_restaurant ?dbi (r_id r) (C - P) (remove1 T slots)"
  let ?rows = "map (\<lambda>x. if r_id x = r_id r
                           then x\<lparr>r_available_capacity := C - P,
                                  r_available_reservations := remove1 T slots\<rparr>
                           else x)
                     (tbl_restaurants db)"
  note b = book_restaurant_cases [OF complete conn size quoted found, unfolded cap slots]
  have status: "booking_status (fst ?book) = ''success''
      \<longleftrightarrow> T \<in> set slots \<and> P \<le> C
          \<and> insert_refusal (the customer_name) (the contact_number) P T = None
          \<and> update_refusal (C - P) (remove1 T slots) = None"
    by (auto simp: b split: option.splits)
  have err: "booking_status (fst ?book) = ''error''
         \<longleftrightarrow> T \<in> set slots \<and> P \<le> C
             \<and> (insert_refusal (the customer_name) (the contact_number) P T \<noteq> None
                 \<or> update_refusal (C - P) (remove1 T slots) \<noteq> None)"
    by (auto simp: b split: option.splits)
  have unavailable: "T \<notin> set slots \<longrightarrow> ?book = (Unavailable_time slots, st)"
    by (simp add: b)
  have insufficient: "T \<in> set slots \<and> C < P \<longrightarrow> ?book = (Insufficient_capacity C P, st)"
    by (simp add: b)
  have ti: "tbl_restaurants ?dbi = tbl_restaurants db"
    if "insert_refusal (the customer_name) (the contact_number) P T = None"
    using that by (simp add: insert_reservation_def)
  have kept: "\<exists>db'. connection (snd ?book) = Some db' \<and> tbl_restaurants db' = tbl_restaurants db"
    if "booking_status (fst ?book) \<noteq> ''success''"
    using that conn ti by (auto simp: b split: option.splits if_splits)
  have success: "\<exists>db'. connection (snd ?book) = Some db'
             \<and> tbl_restaurants db' = ?rows
             \<and> (distinct (map r_id (tbl_restaurants db)) \<longrightarrow>
                  tbl_restaurants db' =
                    map (\<lambda>x. if x = r
                              then r\<lparr>r_available_capacity := C - P,
                                     r_available_reservations := remove1 T slots\<rparr>
                              else x)
                        (tbl_restaurants db))"
    if ok: "booking_status (fst ?book) = ''success''"
  proof -
    from ok status have acc: "T \<in> set slots" "P \<le> C"
      "insert_refusal (the customer_name) (the contact_number) P T = None"
      "update_refusal (C - P) (remove1 T slots) = None"
      by auto
    have c: "connection (snd ?book) = Some (projr ?upd)"
      using acc by (simp add: b)
    have t: "tbl_restaurants (projr ?upd) = ?rows"
      using acc ti by (simp add: update_restaurant_def)
    have d: "tbl_restaurants (projr ?upd) =
                    map (\<lambda>x. if x = r
                              then r\<lparr>r_available_capacity := C - P,
                                     r_available_reservations := remove1 T slots\<rparr>
                              else x)
                        (tbl_restaurants db)"
      if "distinct (map r_id (tbl_restaurants db))"
      using update_only_row [OF that find_restaurant_in_table [OF found],
          of "\<lambda>x. x\<lparr>r_available_capacity := C - P, r_available_reservations := remove1 T slots\<rparr>"]
      by (simp only: t)
    from c t d show ?thesis by blast
  qed
  have one: "mset (remove1 T slots) + {#T#} = mset slots \<and> length (remove1 T slots) + 1 = length slots"
    if "booking_status (fst ?book) = ''success''"
  proof -
    from that status have "T \<in> set slots" by simp
    then show ?thesis
      by (simp add: length_remove1) (metis One_nat_def Suc_pred length_pos_if_in_set)
  qed
  show ?thesis
    using status err unavailable insufficient success one kept by blast
qed


theorem book_restaurant_round_trip_witness:
  "booking_missing_fields (Some ''rom'') (Some ''8:00 PM'') (Str_value ''4'') (Some ''Ann'')
       (Some ''555-0100'') = []
   \<and> select_refusal ''rom'' (normalize_city (catalog austin) (Some ''Austin'')) = None
   \<and> find_restaurant austin_db ''rom'' (normalize_city (catalog austin) (Some ''Austin'')) = Some roma
   \<and> insert_refusal ''Ann'' ''555-0100'' 4 ''8:00 PM'' = None
   \<and> update_refusal (12 - 4) (remove1 ''8:00 PM'' [''6:00 PM'', ''8:00 PM'']) = None
   \<and> booking_status (fst (book_restaurant austin (Some ''rom'') (Some ''8:00 PM'') (Str_value ''4'')
          (Some ''Ann'') (Some ''555-0100'') (Some ''Austin''))) = ''success''
   \<and> (\<exists>db'. connection (snd (book_restaurant austin (Some ''rom'') (Some ''8:00 PM'')
                    (Str_value ''4'') (Some ''Ann'') (Some ''555-0100'') (Some ''Austin''))) = Some db'
          \<and> tbl_restaurants db' =
              [roma\<lparr>r_available_capacity := 8, r_available_reservations := [''6:00 PM'']\<rparr>,
               cantina, lotus])"
proof -
  have h1: "booking_missing_fields (Some ''rom'') (Some ''8:00 PM'') (Str_value ''4'') (Some ''Ann'')
       (Some ''555-0100'') = []"
    by code_simp
  have h2: "connection austin = Some austin_db"
    by code_simp
  have h3: "int_of_arg (Str_value ''4'') = Some 4"
    by code_simp
  have hq: "select_refusal (the (Some ''rom'')) (normalize_city (catalog austin) (Some ''Austin'')) = None"
    by code_simp
  have h4: "find_restaurant austin_db (the (Some ''rom''))
              (normalize_city (catalog austin) (Some ''Austin'')) = Some roma"
    by code_simp
  have h5: "r_available_capacity roma = 12"
    by code_simp
  have h6: "r_available_reservations roma = [''6:00 PM'', ''8:00 PM'']"
    by code_simp
  have ok: "''8:00 PM'' \<in> set [''6:00 PM'', ''8:00 PM''] \<and> (4::int) \<le> 12"
    by simp
  have acc: "insert_refusal (the (Some ''Ann'')) (the (Some ''555-0100'')) 4 ''8:00 PM'' = None
             \<and> update_refusal (12 - 4) (remove1 ''8:00 PM'' [''6:00 PM'', ''8:00 PM'']) = None"
    by code_simp
  have rows: "map (\<lambda>x. if r_id x = r_id roma
                         then x\<lparr>r_available_capacity := 12 - 4,
                                r_available_reservations := remove1 ''8:00 PM'' [''6:00 PM'', ''8:00 PM'']\<rparr>
                         else x)
                  (tbl_restaurants austin_db)
              = [roma\<lparr>r_available_capacity := 8, r_available_reservations := [''6:00 PM'']\<rparr>,
                 cantina, lotus]"
    by code_simp
  note t = book_restaurant_round_trip [OF h1 h2 h3 hq h4 h5 h6]
  from t ok acc have s: "booking_status (fst (book_restaurant austin (Some ''rom'') (Some ''8:00 PM'')
          (Str_value ''4'') (Some ''Ann'') (Some ''555-0100'') (Some ''Austin''))) = ''success''"
    by blast
  with t obtain db' where
    "connection (snd (book_restaurant austin (Some ''rom'') (Some ''8:00 PM'')
          (Str_value ''4'') (Some ''Ann'') (Some ''555-0100'') (Some ''Austin''))) = Some db'"
    "tbl_restaurants db' =
       map (\<lambda>x. if r_id x = r_id roma
                 then x\<lparr>r_available_capacity := 12 - 4,
                        r_available_reservations := remove1 ''8:00 PM'' [''6:00 PM'', ''8:00 PM'']\<rparr>
                 else x)
           (tbl_restaurants austin_db)"
    by blast
  with rows have "\<exists>db'. connection (snd (book_restaurant austin (Some ''rom'') (Some ''8:00 PM'')
                    (Str_value ''4'') (Some ''Ann'') (Some ''555-0100'') (Some ''Austin''))) = Some db'
          \<and> tbl_restaurants db' =
              [roma\<lparr>r_available_capacity := 8, r_available_reservations := [''6:00 PM'']\<rparr>,
               cantina, lotus]"
    by auto
  with h1 hq h4 acc s show ?thesis by simp
qed

text \<open>Bookings the database refuses: a contact number of more than twenty characters, a name
  with a NUL character, and a party size that is no 32-bit number.  Each ends with the status
  \<open>error\<close> and the store as it was.\<close>

lemma book_restaurant_refused:
  "book_restaurant austin (Some ''rom'') (Some ''8:00 PM'') (Int_value 4) (Some ''Ann'')
       (Some ''+1 (512) 555-0100 ext. 22'') None
     = (Booking_failed (Raised Value_too_long), austin)
   \<and> book_restaurant austin (Some ''rom'') (Some ''8:00 PM'') (Int_value 4) (Some [CHR ''A'', CHR 0x00])
       (Some ''555-0100'') None
     = (Booking_failed (Raised Nul_character), austin)
   \<and> book_restaurant austin (Some ''rom'') (Some ''8:00 PM'') (Int_value (- 3000000000)) (Some ''Ann'')
       (Some ''555-0100'') None
     = (Booking_failed (Raised Integer_out_of_range), austin)
   \<and> booking_status (Booking_failed (Raised Value_too_long)) = ''error''"
  by code_simp

section \<open>Validating the booking information\<close>

text \<open>
  C9: \<^verbatim>\<open>validate_booking_info\<close> called twice with the same arguments, the second call on the
  store the first one left, gives the same \<open>missing_fields\<close> and \<open>provided_fields\<close> (and
  status); the call leaves the store as it was, and its result is the same on every store: the
  tool reads neither the catalog nor the database.
\<close>

theorem validate_booking_info_twice:
  assumes first: "call_tool st (Validate_booking_info restaurant_name reservation_time party_size
                     customer_name contact_number city) = (r1, st1)"
    and second: "call_tool st1 (Validate_booking_info restaurant_name reservation_time party_size
                     customer_name contact_number city) = (r2, st2)"
  shows "(\<exists>v1 v2. r1 = Validation v1 \<and> r2 = Validation v2
            \<and> missing_fields v1 = missing_fields v2
            \<and> provided_fields v1 = provided_fields v2
            \<and> validation_status v1 = validation_status v2)
         \<and> st1 = st \<and> st2 = st
         \<and> (\<forall>st'. call_tool st' (Validate_booking_info restaurant_name reservation_time party_size
                     customer_name contact_number city) = (r1, st'))"
proof -
  let ?v = "validate_booking_info restaurant_name reservation_time party_size customer_name
              contact_number city"
  from first have a: "r1 = Validation ?v" "st1 = st" by auto
  from second have b: "r2 = Validation ?v" "st2 = st1" by auto
  have c: "call_tool st' (Validate_booking_info restaurant_name reservation_time party_size
                     customer_name contact_number city) = (r1, st')" for st'
    using a by simp
  from a b c show ?thesis by simp
qed

theorem validate_booking_info_twice_witness:
  "call_tool austin (Validate_booking_info (Some ''Roma'') None (Str_value ''four'') (Some ''Ann'')
       (Some []) None)
     = (Validation
          \<lparr>validation_status = ''missing_fields'',
           missing_fields = [''reservation_time'', ''valid_party_size'', ''contact_number'', ''city''],
           provided_fields = [(''restaurant_name'', JStr ''Roma''), (''customer_name'', JStr ''Ann''),
                              (''contact_number'', JStr [])]\<rparr>, austin)
   \<and> call_tool twelve_cities (Validate_booking_info (Some ''Roma'') None (Str_value ''four'')
         (Some ''Ann'') (Some []) None)
     = (Validation
          \<lparr>validation_status = ''missing_fields'',
           missing_fields = [''reservation_time'', ''valid_party_size'', ''contact_number'', ''city''],
           provided_fields = [(''restaurant_name'', JStr ''Roma''), (''customer_name'', JStr ''Ann''),
                              (''contact_number'', JStr [])]\<rparr>, twelve_cities)"
proof -
  have h: "call_tool austin (Validate_booking_info (Some ''Roma'') None (Str_value ''four'')
             (Some ''Ann'') (Some []) None)
     = (Validation
          \<lparr>validation_status = ''missing_fields'',
           missing_fields = [''reservation_time'', ''valid_party_size'', ''contact_number'', ''city''],
           provided_fields = [(''restaurant_name'', JStr ''Roma''), (''customer_name'', JStr ''Ann''),
                              (''contact_number'', JStr [])]\<rparr>, austin)"
    by code_simp
  from validate_booking_info_twice [OF h h] h show ?thesis by blast
qed


text \<open>The same is not true of every tool: a booking repeated on the store it left is refused,
  its slot being taken.\<close>

lemma book_restaurant_twice:
  "booking_status (fst (book_restaurant austin (Some ''rom'') (Some ''8:00 PM'') (Int_value 4)
      (Some ''Ann'') (Some ''555-0100'') None)) = ''success''
   \<and> booking_status (fst (book_restaurant
        (snd (book_restaurant austin (Some ''rom'') (Some ''8:00 PM'') (Int_value 4)
                (Some ''Ann'') (Some ''555-0100'') None))
        (Some ''rom'') (Some ''8:00 PM'') (Int_value 4) (Some ''Ann'') (Some ''555-0100'') None))
       = ''unavailable_time''"
  by code_simp

lemma validation_complete_iff:
  "validation_status (validate_booking_info restaurant_name reservation_time party_size
       customer_name contact_number city) = ''complete''
   \<longleftrightarrow> truthy_str restaurant_name \<and> truthy_str reservation_time \<and> truthy_arg party_size
       \<and> int_of_arg party_size \<noteq> None \<and> truthy_str customer_name \<and> truthy_str contact_number
       \<and> truthy_str city"
  by (simp add: validate_booking_info_def Let_def)

lemma booking_complete_iff:
  "booking_missing_fields restaurant_name reservation_time party_size customer_name contact_number = []
   \<longleftrightarrow> truthy_str restaurant_name \<and> truthy_str reservation_time \<and> truthy_arg party_size
       \<and> int_of_arg party_size \<noteq> None \<and> truthy_str customer_name \<and> truthy_str contact_number"
  by (simp add: booking_missing_fields_def)

lemma book_restaurant_not_incomplete:
  assumes "booking_missing_fields restaurant_name reservation_time party_size customer_name
             contact_number = []"
  shows "booking_status (fst (book_restaurant st restaurant_name reservation_time party_size
           customer_name contact_number city)) \<noteq> ''incomplete''"
  using assms
  by (simp add: book_restaurant_def Let_def
      split: option.splits sum.splits prod.splits)

text \<open>
  The docstring of \<^verbatim>\<open>book_restaurant\<close> sends the caller to \<^verbatim>\<open>validate_booking_info\<close> first.
  The two tools test the fields in the same way: when the validation answers \<open>complete\<close>, its
  list of missing fields is empty, the check at the head of \<^verbatim>\<open>book_restaurant\<close> finds nothing
  missing either, and on no store does the booking come back \<open>incomplete\<close>.  (The converse
  fails: the booking does not require a city.)
\<close>

theorem complete_validation_permits_booking:
  assumes "validation_status (validate_booking_info restaurant_name reservation_time party_size
             customer_name contact_number city) = ''complete''"
  shows "missing_fields (validate_booking_info restaurant_name reservation_time party_size
             customer_name contact_number city) = []
         \<and> booking_missing_fields restaurant_name reservation_time party_size customer_name
             contact_number = []
         \<and> (\<forall>st. booking_status (fst (book_restaurant st restaurant_name reservation_time
               party_size customer_name contact_number city)) \<noteq> ''incomplete'')"
proof -
  from assms have c: "truthy_str restaurant_name \<and> truthy_str reservation_time \<and> truthy_arg party_size
       \<and> int_of_arg party_size \<noteq> None \<and> truthy_str customer_name \<and> truthy_str contact_number
       \<and> truthy_str city"
    by (simp add: validation_complete_iff)
  then have b: "booking_missing_fields restaurant_name reservation_time party_size customer_name
             contact_number = []"
    by (simp add: booking_complete_iff)
  have m: "missing_fields (validate_booking_info restaurant_name reservation_time party_size
             customer_name contact_number city) = []"
    using c by (simp add: validate_booking_info_def Let_def)
  from b m book_restaurant_not_incomplete [OF b] show ?thesis by simp
qed

theorem complete_validation_permits_booking_witness:
  "validation_status (validate_booking_info (Some ''Roma'') (Some ''8:00 PM'') (Str_value ''4'')
       (Some ''Ann'') (Some ''555-0100'') (Some ''Austin'')) = ''complete''
   \<and> booking_status (fst (book_restaurant austin (Some ''Roma'') (Some ''8:00 PM'') (Str_value ''4'')
       (Some ''Ann'') (Some ''555-0100'') (Some ''Austin''))) = ''success''"
proof -
  have h: "validation_status (validate_booking_info (Some ''Roma'') (Some ''8:00 PM'') (Str_value ''4'')
       (Some ''Ann'') (Some ''555-0100'') (Some ''Austin'')) = ''complete''"
    by code_simp
  have s: "booking_status (fst (book_restaurant austin (Some ''Roma'') (Some ''8:00 PM'') (Str_value ''4'')
       (Some ''Ann'') (Some ''555-0100'') (Some ''Austin''))) \<in> set [''incomplete'', ''success'']"
    by code_simp
  from complete_validation_permits_booking [OF h]
  have "booking_status (fst (book_restaurant austin (Some ''Roma'') (Some ''8:00 PM'') (Str_value ''4'')
       (Some ''Ann'') (Some ''555-0100'') (Some ''Austin''))) \<noteq> ''incomplete''"
    by blast
  with s h show ?thesis by simp
qed

section \<open>The dispatcher\<close>

text \<open>The observations are a dict: its keys are distinct, and assigning to a key changes that
  key only.\<close>

lemma dict_set_fst:
  "map fst (dict_set kvs k v) = (if k \<in> fst ` set kvs then map fst kvs else map fst kvs @ [k])"
  by (induction kvs) (auto split: if_splits)

lemma dict_set_keys: "fst ` set (dict_set kvs k v) = insert k (fst ` set kvs)"
  using dict_set_fst [of kvs k v, THEN arg_cong, of set] by (auto split: if_splits)

lemma dict_set_distinct: "distinct (map fst kvs) \<Longrightarrow> distinct (map fst (dict_set kvs k v))"
  by (simp add: dict_set_fst)

lemma dict_set_map_of: "map_of (dict_set kvs k v) = (map_of kvs)(k \<mapsto> v)"
  by (induction kvs) (auto simp: fun_eq_iff)

lemma dict_set_once:
  "distinct (map fst kvs) \<Longrightarrow> length (filter (\<lambda>kv. fst kv = k) (dict_set kvs k v)) = 1"
proof (induction kvs)
  case Nil
  then show ?case by simp
next
  case (Cons a kvs)
  show ?case
  proof (cases "fst a = k")
    case True
    with Cons.prems have "k \<notin> fst ` set kvs" by auto
    then have "filter (\<lambda>kv. fst kv = k) kvs = []"
      by (auto simp: filter_empty_conv)
    with True show ?thesis by (cases a) simp
  next
    case False
    with Cons show ?thesis by (cases a) simp
  qed
qed

lemma process_tool_call_distinct:
  "distinct (map fst (fst ow)) \<Longrightarrow> distinct (map fst (fst (process_tool_call va tools_dict ow c)))"
  by (auto simp: process_tool_call_def dict_set_distinct split: prod.splits sum.splits py_exn.splits)

lemma foldl_process_distinct:
  "distinct (map fst (fst ow))
   \<Longrightarrow> distinct (map fst (fst (foldl (process_tool_call va tools_dict) ow cs)))"
  by (induction cs arbitrary: ow) (simp_all add: process_tool_call_distinct)

lemma process_tool_calls_distinct:
  "distinct (map fst (fst (process_tool_calls va tools_dict w cs)))"
  unfolding process_tool_calls_def by (rule foldl_process_distinct) simp

lemma process_tool_calls_append:
  "process_tool_calls va tools_dict w (cs @ cs')
   = foldl (process_tool_call va tools_dict) (process_tool_calls va tools_dict w cs) cs'"
  by (simp add: process_tool_calls_def)

lemma process_tool_calls_snoc:
  "process_tool_calls va tools_dict w (cs @ [c])
   = process_tool_call va tools_dict (process_tool_calls va tools_dict w cs) c"
  by (simp add: process_tool_calls_def)

lemma add_reminder_eq:
  "add_reminder observations rest =
     (if list_ex empty_no_results (map snd rest)
      then dict_set observations (KStr ''reminder'') reminder else observations)"
  by (induction rest) auto



section \<open>Calls that fail\<close>

text \<open>One round of the loop, for a call of a tool that is not registered, for a block without a
  name, for a tool that raises, and for a block that is not a JSON object.\<close>

lemma process_tool_calls_Cons_after:
  "process_tool_calls va tools_dict w (pre @ c # post)
   = foldl (process_tool_call va tools_dict)
       (process_tool_call va tools_dict (process_tool_calls va tools_dict w pre) c) post"
  by (simp add: process_tool_calls_def)

lemma unresolved_tool_step:
  assumes "map_of kvs ''name'' = Some (JStr n)" and "tools_dict n = None"
  shows "process_tool_call va tools_dict (obs, w) (Block (JObj kvs))
         = (dict_set obs (KStr ''error'') (tool_not_found (repr_str n)), w)"
  using assms
  by (simp add: process_tool_call_def try_tool_call_def resolve_and_validate_def)

lemma missing_name_step:
  assumes "map_of kvs ''name'' = None"
  shows "process_tool_call va tools_dict (obs, w) (Block (JObj kvs))
         = (dict_set obs (KStr ''error'') (tool_not_found (repr_str ''name'')), w)"
  using assms
  by (simp add: process_tool_call_def try_tool_call_def resolve_and_validate_def)

lemma tool_raises_step:
  assumes "resolve_and_validate va tools_dict w c = (Inr (t, validated_tool_call), w1)"
    and "subscript validated_tool_call ''arguments'' = Inr (JObj args)"
    and "tool_run t (coerce_group_size args) w1 = (Inl e, w2)"
  shows "process_tool_call va tools_dict (obs, w) c
         = (dict_set obs (KStr ''error'')
              (case e of KeyError s \<Rightarrow> tool_not_found s | Exception s \<Rightarrow> error_text s), w2)"
  using assms
  by (simp add: process_tool_call_def try_tool_call_def execute_validated_def split: py_exn.splits)

lemma not_an_object_step:
  "process_tool_call va tools_dict (obs, w) (Block (JArr xs))
   = (dict_set obs (KStr ''error'')
        (error_text ''list indices must be integers or slices, not str''), w)"
  by (simp add: process_tool_call_def try_tool_call_def resolve_and_validate_def)

lemma tool_not_found_not_error_text: "tool_not_found e \<noteq> error_text e'"
  by (simp add: tool_not_found_def error_text_def)

lemma repr_str_longer: "length (repr_str s) \<ge> length s + 2"
proof -
  have c: "length (repr_char q c) \<ge> 1" for q c
    by (simp add: repr_char_def Let_def)
  have "length (concat (map (repr_char q) s)) \<ge> length s" for q
  proof (induction s)
    case Nil
    then show ?case by simp
  next
    case (Cons a s)
    then show ?case using c [of q a] by simp
  qed
  then show ?thesis
    by (simp add: repr_str_def Let_def)
qed

lemma repr_str_not_same: "repr_str s \<noteq> s"
  using repr_str_longer [of s] by auto

lemma tool_not_found_inj: "tool_not_found a = tool_not_found b \<longleftrightarrow> a = b"
  by (simp add: tool_not_found_def)


text \<open>
  C7 at a concrete turn: three calls, the first and the third of tools that are not registered.
  The batch goes on after each failure and the error slot ends with the message of the last one;
  but the message is \<^verbatim>\<open>Tool ''reserve'' not found\<close>, the name inside two pairs of quotes, and
  not \<^verbatim>\<open>Tool 'reserve' not found\<close>: the format string \<^verbatim>\<open>f"Tool '{e}' not found"\<close> prints the
  \<^verbatim>\<open>KeyError\<close>, whose text is the \<^verbatim>\<open>repr\<close> of the name, where the name itself was meant.
\<close>

theorem unknown_tools_in_one_turn:
  "fst (process_tool_calls accept_as_is two_tools fresh_agent
          [call ''book'' [] 0, call ''search'' [(''city'', JStr ''Austin'')] 1, call ''reserve'' [] 2])
   = [(KStr ''error'', JStr (''Tool '' @ [quote, quote] @ ''reserve'' @ [quote, quote] @ '' not found'')),
      (KInt 1, JObj [(''status'', JStr ''success''), (''data'', JArr [JStr ''Roma''])])]
   \<and> ''Tool '' @ [quote, quote] @ ''reserve'' @ [quote, quote] @ '' not found''
       \<noteq> ''Tool '' @ [quote] @ ''reserve'' @ [quote] @ '' not found''"
  by code_simp

text \<open>
  What holds of a call of an unregistered tool in general: the shared error slot gets the
  unresolved-tool message of this call, built from the \<^verbatim>\<open>repr\<close> of the name (so never the
  message with the bare name), whatever the slot held before (an earlier failure of the turn is overwritten); there is one error slot; the other
  observations and the state are untouched; and the loop goes on with the next call.
\<close>

theorem unresolved_tool_recorded:
  assumes "map_of kvs ''name'' = Some (JStr n)"
    and "tools_dict n = None"
    and "process_tool_calls va tools_dict w pre = (obs, w1)"
  shows "process_tool_calls va tools_dict w (pre @ Block (JObj kvs) # post)
         = foldl (process_tool_call va tools_dict)
             (dict_set obs (KStr ''error'') (tool_not_found (repr_str n)), w1) post
         \<and> process_tool_calls va tools_dict w (pre @ [Block (JObj kvs)])
             = (dict_set obs (KStr ''error'') (tool_not_found (repr_str n)), w1)
         \<and> map_of (dict_set obs (KStr ''error'') (tool_not_found (repr_str n))) (KStr ''error'')
             = Some (tool_not_found (repr_str n))
         \<and> length (filter (\<lambda>kv. fst kv = KStr ''error'')
                     (dict_set obs (KStr ''error'') (tool_not_found (repr_str n)))) = 1
         \<and> (\<forall>k. k \<noteq> KStr ''error'' \<longrightarrow>
               map_of (dict_set obs (KStr ''error'') (tool_not_found (repr_str n))) k = map_of obs k)
         \<and> tool_not_found (repr_str n) = JStr (''Tool '' @ [quote] @ repr_str n @ [quote] @ '' not found'')
         \<and> tool_not_found (repr_str n) \<noteq> JStr (''Tool '' @ [quote] @ n @ [quote] @ '' not found'')"
proof -
  have d: "distinct (map fst obs)"
    using process_tool_calls_distinct [of va tools_dict w pre] assms(3) by simp
  note step = unresolved_tool_step [of kvs n tools_dict va obs w1, OF assms(1,2)]
  have a: "process_tool_calls va tools_dict w (pre @ Block (JObj kvs) # post)
         = foldl (process_tool_call va tools_dict)
             (dict_set obs (KStr ''error'') (tool_not_found (repr_str n)), w1) post"
    by (simp only: process_tool_calls_Cons_after assms(3) step)
  have b: "process_tool_calls va tools_dict w (pre @ [Block (JObj kvs)])
             = (dict_set obs (KStr ''error'') (tool_not_found (repr_str n)), w1)"
    by (simp only: process_tool_calls_snoc assms(3) step)
  have m: "tool_not_found (repr_str n) \<noteq> JStr (''Tool '' @ [quote] @ n @ [quote] @ '' not found'')"
    using repr_str_not_same [of n] by (simp add: tool_not_found_def)
  show ?thesis
    using a b d m by (simp add: dict_set_map_of dict_set_once tool_not_found_def)
qed


theorem unresolved_tool_recorded_witness:
  "map_of [(''name'', JStr ''reserve''), (''arguments'', JObj []), (''id'', JInt 2)] ''name''
     = Some (JStr ''reserve'')
   \<and> two_tools ''reserve'' = None
   \<and> process_tool_calls accept_as_is two_tools fresh_agent
         ([call ''book'' [] 0, call ''search'' [(''city'', JStr ''Austin'')] 1]
          @ [Block (JObj [(''name'', JStr ''reserve''), (''arguments'', JObj []), (''id'', JInt 2)])])
       = ([(KStr ''error'', tool_not_found (repr_str ''reserve'')),
           (KInt 1, JObj [(''status'', JStr ''success''), (''data'', JArr [JStr ''Roma''])])],
          \<lparr>tool_call_id = 0, tool_state = 1\<rparr>)"
proof -
  let ?obs = "[(KStr ''error'', tool_not_found (repr_str ''book'')),
               (KInt 1, JObj [(''status'', JStr ''success''), (''data'', JArr [JStr ''Roma''])])]"
  have h1: "map_of [(''name'', JStr ''reserve''), (''arguments'', JObj []), (''id'', JInt 2)] ''name''
              = Some (JStr ''reserve'')"
    by simp
  have h2: "two_tools ''reserve'' = None"
    by (simp add: two_tools_def)
  have h3: "process_tool_calls accept_as_is two_tools fresh_agent
              [call ''book'' [] 0, call ''search'' [(''city'', JStr ''Austin'')] 1]
            = (?obs, \<lparr>tool_call_id = 0, tool_state = 1\<rparr>)"
    by code_simp
  have h4: "dict_set ?obs (KStr ''error'') (tool_not_found (repr_str ''reserve''))
            = [(KStr ''error'', tool_not_found (repr_str ''reserve'')),
               (KInt 1, JObj [(''status'', JStr ''success''), (''data'', JArr [JStr ''Roma''])])]"
    by simp
  from unresolved_tool_recorded [OF h1 h2 h3] h1 h2 h4 show ?thesis by simp
qed

text \<open>
  C10, as stated, fails on the code for a block that is valid JSON but not an object: a JSON
  array has no \<open>name\<close> field, and subscripting it raises \<^verbatim>\<open>TypeError\<close>, which the second
  \<^verbatim>\<open>except\<close> clause records as \<^verbatim>\<open>Error: ...\<close>.
\<close>

theorem non_object_block_is_error:
  "json_loads (Block (JArr [JStr ''search''])) = Inr (JArr [JStr ''search''])
   \<and> fst (process_tool_calls accept_as_is two_tools fresh_agent
            [Block (JArr [JStr ''search''])])
       = [(KStr ''error'', JStr ''Error: list indices must be integers or slices, not str'')]"
  by code_simp

lemma non_object_step:
  assumes "\<forall>kvs. j \<noteq> JObj kvs"
  shows "\<exists>m. \<forall>obs. process_tool_call va tools_dict (obs, w) (Block j)
               = (dict_set obs (KStr ''error'') (error_text m), w)"
  using assms
  by (cases j) (simp_all add: process_tool_call_def try_tool_call_def resolve_and_validate_def, blast+)

text \<open>
  C10, amended: for a block that parses to a JSON object without a \<open>name\<close> key, and for a
  resolved tool whose invocation raises a \<^verbatim>\<open>KeyError\<close>, the \<^verbatim>\<open>KeyError\<close> clause is taken:
  the shared error slot gets an unresolved-tool message (\<^verbatim>\<open>Tool '...' not found\<close>, which is
  never an \<^verbatim>\<open>Error: ...\<close> message), the other observations stay as they are, and the loop
  goes on with the next call, from the state the failing call left.  A block that parses to JSON
  that is no object (a string, a number, a boolean, null or an array) is recorded by the other
  clause, as \<^verbatim>\<open>Error: ...\<close>, and the loop goes on as well.  What stands between the quotes
  of the unresolved-tool message is not part of the statement.
\<close>

theorem key_error_branch:
  assumes "process_tool_calls va tools_dict w pre = (obs, w0)"
  shows "(map_of kvs ''name'' = None \<longrightarrow>
            (\<exists>m. process_tool_calls va tools_dict w (pre @ Block (JObj kvs) # post)
                  = foldl (process_tool_call va tools_dict)
                      (dict_set obs (KStr ''error'') (tool_not_found m), w0) post))
         \<and> (\<forall>t validated_tool_call w1 args e w2.
               resolve_and_validate va tools_dict w0 c = (Inr (t, validated_tool_call), w1)
               \<and> subscript validated_tool_call ''arguments'' = Inr (JObj args)
               \<and> tool_run t (coerce_group_size args) w1 = (Inl (KeyError e), w2)
               \<longrightarrow> (\<exists>m. process_tool_calls va tools_dict w (pre @ c # post)
                          = foldl (process_tool_call va tools_dict)
                              (dict_set obs (KStr ''error'') (tool_not_found m), w2) post))
         \<and> ((\<forall>kvs. j \<noteq> JObj kvs) \<longrightarrow>
               (\<exists>m. process_tool_calls va tools_dict w (pre @ Block j # post)
                     = foldl (process_tool_call va tools_dict)
                         (dict_set obs (KStr ''error'') (error_text m), w0) post))
         \<and> (\<forall>m e'. tool_not_found m = JStr (''Tool '' @ [quote] @ m @ [quote] @ '' not found'')
                    \<and> error_text e' = JStr (''Error: '' @ e')
                    \<and> tool_not_found m \<noteq> error_text e')
         \<and> (\<forall>v k. k \<noteq> KStr ''error'' \<longrightarrow>
                map_of (dict_set obs (KStr ''error'') v) k = map_of obs k)"
proof (intro conjI allI impI)
  show "\<exists>m. process_tool_calls va tools_dict w (pre @ Block (JObj kvs) # post)
        = foldl (process_tool_call va tools_dict)
            (dict_set obs (KStr ''error'') (tool_not_found m), w0) post"
    if "map_of kvs ''name'' = None"
    using missing_name_step [OF that, of va tools_dict obs w0]
    by (auto simp only: process_tool_calls_Cons_after assms)
  show "\<exists>m. process_tool_calls va tools_dict w (pre @ c # post)
        = foldl (process_tool_call va tools_dict)
            (dict_set obs (KStr ''error'') (tool_not_found m), w2) post"
    if "resolve_and_validate va tools_dict w0 c = (Inr (t, validated_tool_call), w1)
        \<and> subscript validated_tool_call ''arguments'' = Inr (JObj args)
        \<and> tool_run t (coerce_group_size args) w1 = (Inl (KeyError e), w2)"
    for t validated_tool_call w1 args e w2
  proof -
    from that have "process_tool_call va tools_dict (obs, w0) c
          = (dict_set obs (KStr ''error'') (tool_not_found e), w2)"
      using tool_raises_step [of va tools_dict w0 c t validated_tool_call w1 args "KeyError e" w2 obs]
      by simp
    then have "process_tool_calls va tools_dict w (pre @ c # post)
        = foldl (process_tool_call va tools_dict)
            (dict_set obs (KStr ''error'') (tool_not_found e), w2) post"
      by (simp only: process_tool_calls_Cons_after assms)
    then show ?thesis by blast
  qed
  show "\<exists>m. process_tool_calls va tools_dict w (pre @ Block j # post)
        = foldl (process_tool_call va tools_dict)
            (dict_set obs (KStr ''error'') (error_text m), w0) post"
    if "\<forall>kvs. j \<noteq> JObj kvs"
  proof -
    from non_object_step [OF that, of va tools_dict w0] obtain m where
      "process_tool_call va tools_dict (obs, w0) (Block j)
         = (dict_set obs (KStr ''error'') (error_text m), w0)"
      by blast
    then have "process_tool_calls va tools_dict w (pre @ Block j # post)
        = foldl (process_tool_call va tools_dict)
            (dict_set obs (KStr ''error'') (error_text m), w0) post"
      by (simp only: process_tool_calls_Cons_after assms)
    then show ?thesis by blast
  qed
  show "tool_not_found m = JStr (''Tool '' @ [quote] @ m @ [quote] @ '' not found'')" for m
    by (simp add: tool_not_found_def)
  show "error_text e' = JStr (''Error: '' @ e')" for e'
    by (simp add: error_text_def)
  show "tool_not_found m \<noteq> error_text e'" for m e'
    by (rule tool_not_found_not_error_text)
  show "map_of (dict_set obs (KStr ''error'') v) k = map_of obs k" if "k \<noteq> KStr ''error''" for v k
    using that by (simp add: dict_set_map_of)
qed

theorem key_error_branch_witness:
  "map_of [(''arguments'', JObj [])] ''name'' = None
   \<and> (\<exists>m. process_tool_calls accept_as_is two_tools fresh_agent
            ([] @ Block (JObj [(''arguments'', JObj [])])
                # [call ''search'' [(''city'', JStr ''Austin'')] 7])
          = foldl (process_tool_call accept_as_is two_tools)
              (dict_set [] (KStr ''error'') (tool_not_found m), fresh_agent)
              [call ''search'' [(''city'', JStr ''Austin'')] 7])
   \<and> (\<exists>m. process_tool_calls accept_as_is two_tools fresh_agent
            ([] @ call ''faulty'' [] 0 # [call ''search'' [(''city'', JStr ''Austin'')] 7])
          = foldl (process_tool_call accept_as_is two_tools)
              (dict_set [] (KStr ''error'') (tool_not_found m), \<lparr>tool_call_id = 0, tool_state = 1\<rparr>)
              [call ''search'' [(''city'', JStr ''Austin'')] 7])
   \<and> (\<exists>m. process_tool_calls accept_as_is two_tools fresh_agent
            ([] @ Block (JStr ''search'') # [call ''search'' [(''city'', JStr ''Austin'')] 7])
          = foldl (process_tool_call accept_as_is two_tools)
              (dict_set [] (KStr ''error'') (error_text m), fresh_agent)
              [call ''search'' [(''city'', JStr ''Austin'')] 7])
   \<and> map fst (fst (process_tool_calls accept_as_is two_tools fresh_agent
            [Block (JObj [(''arguments'', JObj [])]), call ''search'' [(''city'', JStr ''Austin'')] 7]))
       = [KStr ''error'', KInt 7]
   \<and> map fst (fst (process_tool_calls accept_as_is two_tools fresh_agent
            [call ''faulty'' [] 0, call ''search'' [(''city'', JStr ''Austin'')] 7]))
       = [KStr ''error'', KInt 7]"
proof -
  let ?post = "[call ''search'' [(''city'', JStr ''Austin'')] 7]"
  let ?vc = "JObj [(''name'', JStr ''faulty''), (''arguments'', JObj []), (''id'', JInt 0)]"
  have p: "process_tool_calls accept_as_is two_tools fresh_agent [] = ([], fresh_agent)"
    by (simp add: process_tool_calls_def)
  note t = key_error_branch [OF p, where kvs = "[(''arguments'', JObj [])]" and post = ?post
      and c = "call ''faulty'' [] 0" and j = "JStr ''search''"]
  have n: "map_of [(''arguments'', JObj [])] ''name'' = None"
    by simp
  have r: "resolve_and_validate accept_as_is two_tools fresh_agent (call ''faulty'' [] 0)
             = (Inr (in_agent faulty_tool, ?vc), \<lparr>tool_call_id = 0, tool_state = 0\<rparr>)
           \<and> subscript ?vc ''arguments'' = Inr (JObj [])
           \<and> tool_run (in_agent faulty_tool) (coerce_group_size []) \<lparr>tool_call_id = 0, tool_state = 0\<rparr>
               = (Inl (KeyError (repr_str ''city'')), \<lparr>tool_call_id = 0, tool_state = 1\<rparr>)"
    by (simp add: resolve_and_validate_def call_def two_tools_def accept_as_is_def
        coerce_group_size_def in_agent_def faulty_tool_def
        fresh_agent_def)
  have o: "\<forall>kvs. JStr ''search'' \<noteq> JObj kvs"
    by simp
  from t n have a: "\<exists>m. process_tool_calls accept_as_is two_tools fresh_agent
            ([] @ Block (JObj [(''arguments'', JObj [])]) # ?post)
          = foldl (process_tool_call accept_as_is two_tools)
              (dict_set [] (KStr ''error'') (tool_not_found m), fresh_agent) ?post"
    by blast
  from t r have b: "\<exists>m. process_tool_calls accept_as_is two_tools fresh_agent
            ([] @ call ''faulty'' [] 0 # ?post)
          = foldl (process_tool_call accept_as_is two_tools)
              (dict_set [] (KStr ''error'') (tool_not_found m),
               \<lparr>tool_call_id = 0, tool_state = 1\<rparr>) ?post"
    by blast
  from t o have c: "\<exists>m. process_tool_calls accept_as_is two_tools fresh_agent
            ([] @ Block (JStr ''search'') # ?post)
          = foldl (process_tool_call accept_as_is two_tools)
              (dict_set [] (KStr ''error'') (error_text m), fresh_agent) ?post"
    by blast
  have a': "map fst (fst (process_tool_calls accept_as_is two_tools fresh_agent
            [Block (JObj [(''arguments'', JObj [])]), call ''search'' [(''city'', JStr ''Austin'')] 7]))
       = [KStr ''error'', KInt 7]"
    by code_simp
  have b': "map fst (fst (process_tool_calls accept_as_is two_tools fresh_agent
            [call ''faulty'' [] 0, call ''search'' [(''city'', JStr ''Austin'')] 7]))
       = [KStr ''error'', KInt 7]"
    by code_simp
  from n a b c a' b' show ?thesis by (simp only:)
qed

section \<open>Relaxation\<close>

text \<open>The query the code builds selects the rows the specification describes, and so do the
  relaxed queries as long as removing a parameter by its value removes that parameter only.\<close>

lemma given_truthy: "given x \<noteq> None \<longleftrightarrow> truthy_str x"
  by (cases x) auto

lemma given_the: "truthy_str x \<Longrightarrow> given x = Some (the x)"
  by (cases x) auto

lemma given_falsy: "\<not> truthy_str x \<Longrightarrow> given x = None"
  by (cases x) auto

lemma first_key_in_value: "first_key_in kvs s = Some v \<Longrightarrow> v \<in> snd ` set kvs"
  by (induction kvs) (auto split: if_splits)

lemma derive_mood_adaptable: "truthy_str (derive_mood occasion) \<longrightarrow> adaptable (the (derive_mood occasion))"
proof (cases "derive_mood occasion")
  case None
  then show ?thesis by simp
next
  case (Some v)
  then have "v \<in> snd ` set mood_mapping"
    by (auto simp: derive_mood_def dest: first_key_in_value split: if_splits)
  then have "adaptable v"
    by (auto simp: mood_mapping_def adaptable_def)
  with Some show ?thesis by simp
qed

lemma execute_build:
  assumes "adaptable c" and "truthy_str cu \<longrightarrow> adaptable (the cu)"
    and "truthy_str m \<longrightarrow> adaptable (the m)"
  shows "execute db (build_query g c cu m) (build_params g c cu m)
   = Inr (matching db g c (given cu) (given m))"
proof -
  have "execute db (build_query g c cu m) (build_params g c cu m)
        = Inr (filter (\<lambda>r. (case g of None \<Rightarrow> True | Some n \<Rightarrow> r_available_capacity r \<ge> n)
                 \<and> lower (r_city r) = lower c
                 \<and> (case given cu of None \<Rightarrow> True | Some x \<Rightarrow> lower (r_cuisine r) = lower x)
                 \<and> (case given m of None \<Rightarrow> True | Some x \<Rightarrow> lower (r_mood r) = lower x))
            (tbl_restaurants db))"
    using assms
    by (cases g; cases "truthy_str cu"; cases "truthy_str m")
       (simp_all add: execute_def build_query_def build_params_def given_the given_falsy)
  then show ?thesis by (simp add: matching_def)
qed

lemma build_query_no_mood:
  "filter (\<lambda>c. c \<noteq> Mood_is) (build_query g c cu m) = build_query g c cu None"
  by (simp add: build_query_def)

lemma build_query_no_cuisine:
  "filter (\<lambda>c. c \<noteq> Cuisine_is) (build_query g c cu m) = build_query g c None m"
  by (simp add: build_query_def)

lemma build_query_city_only:
  "filter (\<lambda>c. c \<noteq> Mood_is) (filter (\<lambda>c. c \<noteq> Cuisine_is) (build_query g c cu m))
   = build_query g c None None"
  by (simp add: build_query_def)

lemma build_query_city_only':
  "filter (\<lambda>c. c \<noteq> Cuisine_is \<and> c \<noteq> Mood_is) (build_query g c cu m) = build_query g c None None"
  by (simp add: build_query_def)

lemma build_params_no_mood:
  assumes "truthy_str m" and "the m \<noteq> c" and "truthy_str cu \<longrightarrow> the m \<noteq> the cu"
  shows "filter (\<lambda>p. p \<noteq> PStr (the m)) (build_params g c cu m) = build_params g c cu None"
  using assms by (auto simp: build_params_def)

lemma build_params_no_cuisine:
  assumes "truthy_str cu" and "the cu \<noteq> c" and "\<not> truthy_str m"
  shows "filter (\<lambda>p. p \<noteq> PStr (the cu)) (build_params g c cu m) = build_params g c None None"
  using assms by (auto simp: build_params_def)

lemma build_params_city_only:
  assumes "truthy_str cu" and "the cu \<noteq> c" and "truthy_str m" and "the m \<noteq> c"
  shows "filter (\<lambda>p. p \<noteq> PStr (the m) \<and> p \<noteq> PStr (the cu)) (build_params g c cu m)
         = build_params g c None None"
  using assms by (auto simp: build_params_def)

lemma without_mood_eq:
  assumes "truthy_str m" and "the m \<noteq> c" and "truthy_str cu \<longrightarrow> the m \<noteq> the cu"
    and "adaptable c" and "truthy_str cu \<longrightarrow> adaptable (the cu)"
  shows "without_mood db (build_query g c cu m) (build_params g c cu m) (the m)
         = Inr (matching db g c (given cu) None)"
  using execute_build [of c cu None db g] assms(4,5)
  by (simp add: without_mood_def build_query_no_mood build_params_no_mood [OF assms(1-3)])

lemma without_cuisine_eq:
  assumes "truthy_str cu" and "the cu \<noteq> c" and "truthy_str m \<longrightarrow> the m \<noteq> c"
    and "adaptable c"
  shows "without_cuisine db (build_query g c cu m) (build_params g c cu m) m (the cu)
         = Inr (matching db g c None None)"
proof (cases "truthy_str m")
  case True
  with assms have "filter (\<lambda>p. p \<noteq> PStr (the m) \<and> p \<noteq> PStr (the cu)) (build_params g c cu m)
         = build_params g c None None"
    by (simp add: build_params_city_only)
  with True show ?thesis
    using execute_build [of c None None db g] assms(4)
    by (simp add: without_cuisine_def build_query_city_only')
next
  case False
  with assms have "filter (\<lambda>p. p \<noteq> PStr (the cu)) (build_params g c cu m) = build_params g c None None"
    by (simp add: build_params_no_cuisine)
  moreover have "build_query g c None m = build_query g c None None"
    using False by (simp add: build_query_def)
  ultimately show ?thesis
    using False execute_build [of c None None db g] assms(4)
    by (simp add: without_cuisine_def build_query_no_cuisine)
qed

lemma city_fallback_eq:
  assumes "adaptable c"
  shows "city_fallback db c =
     Inr \<lparr>available_cuisines =
            sort (remdups (map (\<lambda>r. lower (r_cuisine r))
                    (filter (\<lambda>r. r_cuisine r \<noteq> []) (matching db None c None None)))),
          city_restaurant_count = length (matching db None c None None)\<rparr>"
  using assms by (simp add: city_fallback_def execute_def matching_def)


lemma search_relaxed:
  assumes "truthy_str m \<longrightarrow> the m \<noteq> c \<and> (truthy_str cu \<longrightarrow> the m \<noteq> the cu)"
    and "truthy_str cu \<longrightarrow> the cu \<noteq> c"
    and "adaptable c" and "truthy_str cu \<longrightarrow> adaptable (the cu)"
    and "truthy_str m \<longrightarrow> adaptable (the m)"
  shows "search db g c cu m =
           Inr (relaxed db g c cu m,
                if relaxed db g c cu m = [] \<and> c \<noteq> []
                then Some \<lparr>available_cuisines =
                             sort (remdups (map (\<lambda>r. lower (r_cuisine r))
                                     (filter (\<lambda>r. r_cuisine r \<noteq> []) (matching db None c None None)))),
                           city_restaurant_count = length (matching db None c None None)\<rparr>
                else None)"
proof -
  have wm: "truthy_str m \<Longrightarrow>
      without_mood db (build_query g c cu m) (build_params g c cu m) (the m)
      = Inr (matching db g c (given cu) None)"
    using assms(1,3,4) by (simp add: without_mood_eq)
  have wc: "truthy_str cu \<Longrightarrow>
      without_cuisine db (build_query g c cu m) (build_params g c cu m) m (the cu)
      = Inr (matching db g c None None)"
    using assms(1,2,3) by (simp add: without_cuisine_eq)
  note eb = execute_build [OF assms(3-5), of db g]
  note cf = city_fallback_eq [OF assms(3), of db]
  show ?thesis
    by (cases "truthy_str m"; cases "truthy_str cu")
       (simp_all add: search_def relaxed_def Let_def eb wm wc cf given_the given_falsy)
qed

lemma normalize_cuisine_falsy: "\<not> truthy_str cuisine \<Longrightarrow> normalize_cuisine cat cuisine = None"
  by (simp add: normalize_cuisine_def)

lemma rank_results_length: "length (rank_results m cu rows) = length rows"
  using sort_desc_mset [THEN arg_cong, of size]
  by (simp add: rank_results_eq three_stable_sorts_def sort_desc_def)

lemma rank_results_empty: "rank_results m cu rows = [] \<longleftrightarrow> rows = []"
  using rank_results_length [of m cu rows] by (metis length_0_conv)

text \<open>
  The relaxation, where the code carries it out: when the driver can quote the normalized city
  and cuisine (no NUL character in them), the derived mood differs from the
  normalized city and cuisine, and the normalized cuisine from the normalized city, the rows
  returned are those of the fully constrained query, or if there are none and a mood was derived
  those of the query without the mood, or if there are still none and a cuisine was given those
  of the query without cuisine and mood; they are ranked and cut to five.  The fallback
  suggestions (the cuisines of the city, sorted, and the number of its restaurants) are there
  exactly when no rows are left, which is when the status is \<open>no_results\<close>.
\<close>

theorem relaxation_order:
  assumes conn: "connection st = Some db"
    and size: "group_size_int group_size = Inr g"
    and city: "normalize_city (catalog st) city = Some c" "c \<noteq> []"
    and cuisine: "normalize_cuisine (catalog st) cuisine_preference = cu"
    and mood: "derive_mood occasion = m"
    and mood_differs: "truthy_str m \<longrightarrow> the m \<noteq> c \<and> (truthy_str cu \<longrightarrow> the m \<noteq> the cu)"
    and cuisine_differs: "truthy_str cu \<longrightarrow> the cu \<noteq> c"
    and quoted: "adaptable c" "truthy_str cu \<longrightarrow> adaptable (the cu)"
  shows "\<exists>r. get_recommendations st city occasion cuisine_preference group_size = Recommended r
           \<and> rec_data r = take 5 (three_stable_sorts m cu (relaxed db g c cu m))
           \<and> rec_count r = length (relaxed db g c cu m)
           \<and> rec_status r = (if relaxed db g c cu m = [] then ''no_results'' else ''success'')
           \<and> rec_fallback_suggestions r =
               (if relaxed db g c cu m = []
                then Some \<lparr>available_cuisines =
                             sort (remdups (map (\<lambda>r. lower (r_cuisine r))
                                     (filter (\<lambda>r. r_cuisine r \<noteq> []) (matching db None c None None)))),
                           city_restaurant_count = length (matching db None c None None)\<rparr>
                else None)"
proof -
  have nc: "(if truthy_str cuisine_preference
             then normalize_cuisine (catalog st) cuisine_preference else None) = cu"
    using cuisine normalize_cuisine_falsy [of cuisine_preference "catalog st"] by auto
  have ci: "(if truthy_str city then normalize_city (catalog st) city else None) = Some c"
    using city(1) by (simp add: resolved_city_eq)
  have qm: "truthy_str m \<longrightarrow> adaptable (the m)"
    using derive_mood_adaptable [of occasion] mood by simp
  note s = search_relaxed [OF mood_differs cuisine_differs quoted qm, of db g]
  show ?thesis
    using conn size city(2)
    by (simp add: get_recommendations_def nc ci mood s Let_def rank_results_empty
        rank_results_length rank_results_eq [symmetric])
qed


theorem relaxation_order_witness:
  "connection austin = Some austin_db
   \<and> group_size_int (Str_value ''4'') = Inr (Some 4)
   \<and> normalize_city (catalog austin) (Some ''Austin'') = Some ''austin''
   \<and> normalize_cuisine (catalog austin) (Some ''Sushi'') = Some ''Sushi''
   \<and> derive_mood (Some ''Date night'') = Some ''romantic''
   \<and> matching austin_db (Some 4) ''austin'' (Some ''Sushi'') (Some ''romantic'') = []
   \<and> matching austin_db (Some 4) ''austin'' (Some ''Sushi'') None = []
   \<and> matching austin_db (Some 4) ''austin'' None None = [roma, cantina, lotus]
   \<and> (\<exists>r. get_recommendations austin (Some ''Austin'') (Some ''Date night'') (Some ''Sushi'')
              (Str_value ''4'') = Recommended r
          \<and> rec_data r = [cantina, lotus, roma]
          \<and> rec_count r = 3
          \<and> rec_status r = ''success''
          \<and> rec_fallback_suggestions r = None)"
proof -
  have h1: "connection austin = Some austin_db"
    by code_simp
  have h2: "group_size_int (Str_value ''4'') = Inr (Some 4)"
    by code_simp
  have h3: "normalize_city (catalog austin) (Some ''Austin'') = Some ''austin''"
    by code_simp
  have h4: "''austin'' \<noteq> []"
    by simp
  have h5: "normalize_cuisine (catalog austin) (Some ''Sushi'') = Some ''Sushi''"
    by code_simp
  have h6: "derive_mood (Some ''Date night'') = Some ''romantic''"
    by code_simp
  have h7: "truthy_str (Some ''romantic'') \<longrightarrow>
              the (Some ''romantic'') \<noteq> ''austin''
              \<and> (truthy_str (Some ''Sushi'') \<longrightarrow> the (Some ''romantic'') \<noteq> the (Some ''Sushi''))"
    by simp
  have h8: "truthy_str (Some ''Sushi'') \<longrightarrow> the (Some ''Sushi'') \<noteq> ''austin''"
    by simp
  have h9: "adaptable ''austin''"
    by code_simp
  have h10: "truthy_str (Some ''Sushi'') \<longrightarrow> adaptable (the (Some ''Sushi''))"
    by code_simp
  have m: "matching austin_db (Some 4) ''austin'' (Some ''Sushi'') (Some ''romantic'') = []
           \<and> matching austin_db (Some 4) ''austin'' (Some ''Sushi'') None = []
           \<and> matching austin_db (Some 4) ''austin'' None None = [roma, cantina, lotus]"
    by code_simp
  have e1: "relaxed austin_db (Some 4) ''austin'' (Some ''Sushi'') (Some ''romantic'')
            = [roma, cantina, lotus]"
    by code_simp
  have e2: "take 5 (three_stable_sorts (Some ''romantic'') (Some ''Sushi'') [roma, cantina, lotus])
            = [cantina, lotus, roma]"
    by code_simp
  have e3: "[roma, cantina, lotus] \<noteq> []" "length [roma, cantina, lotus] = 3"
    by simp_all
  from relaxation_order [OF h1 h2 h3 h4 h5 h6 h7 h8 h9 h10]
  have "\<exists>r. get_recommendations austin (Some ''Austin'') (Some ''Date night'') (Some ''Sushi'')
              (Str_value ''4'') = Recommended r
          \<and> rec_data r = [cantina, lotus, roma]
          \<and> rec_count r = 3
          \<and> rec_status r = ''success''
          \<and> rec_fallback_suggestions r = None"
    by (simp only: e1 e2 e3 if_False)
  with h1 h2 h3 h5 h6 m show ?thesis by (simp only:)
qed

text \<open>
  C2 at a concrete query: a family dinner (mood \<open>casual\<close>) with the cuisine preference
  \<open>casual\<close>, which no restaurant of the city has.  The fully constrained query returns no
  row, and relaxing as the claim describes would return the three restaurants of the city.  The
  code drops the mood from the parameters with \<^verbatim>\<open>[p for p in params if p != mood]\<close>, which
  drops the equal cuisine parameter too; the query without the mood still has the cuisine
  placeholder, executing it raises, and the tool returns status \<open>error\<close>.
\<close>

theorem relaxation_stops_on_equal_values:
  "normalize_city (catalog austin) (Some ''Austin'') = Some ''austin''
   \<and> normalize_cuisine (catalog austin) (Some ''casual'') = Some ''casual''
   \<and> derive_mood (Some ''family dinner'') = Some ''casual''
   \<and> matching austin_db None ''austin'' (Some ''casual'') (Some ''casual'') = []
   \<and> relaxed austin_db None ''austin'' (Some ''casual'') (Some ''casual'') = [roma, cantina, lotus]
   \<and> get_recommendations austin (Some ''Austin'') (Some ''family dinner'') (Some ''casual'') No_value
       = Failed (Raised Parameter_count)
   \<and> status (get_recommendations austin (Some ''Austin'') (Some ''family dinner'') (Some ''casual'')
         No_value) = ''error''"
  by code_simp

section \<open>Call ids\<close>

text \<open>The validator and the tools leave the counter of the agent alone.\<close>

lemma process_tool_call_state:
  "snd (process_tool_call va td (obs, w) c) = snd (try_tool_call va td w c)"
  by (simp add: process_tool_call_def split: prod.splits sum.splits py_exn.splits)

lemma process_tool_call_outcome:
  "\<exists>k v. \<forall>obs. process_tool_call va td (obs, w) c
                  = (dict_set obs k v, snd (try_tool_call va td w c))"
proof (cases "try_tool_call va td w c")
  case (Pair r w')
  show ?thesis
  proof (cases r)
    case (Inl e)
    with Pair show ?thesis
      by (cases e) (simp_all add: process_tool_call_def, blast+)
  next
    case (Inr kv)
    with Pair show ?thesis
      by (cases kv) (simp add: process_tool_call_def, blast)
  qed
qed

lemma validator_keeps_counter:
  "tool_call_id (snd (validator_in_agent va tool_call sig self)) = tool_call_id self"
  by (simp add: validator_in_agent_def split: prod.splits)

lemma tool_keeps_counter:
  "tool_call_id (snd (tool_run (in_agent t) args self)) = tool_call_id self"
  by (simp add: in_agent_def split: prod.splits)

lemma resolve_keeps_counter:
  "tool_call_id (snd (resolve_and_validate (validator_in_agent va) td self c)) = tool_call_id self"
  using validator_keeps_counter [of va]
  by (auto simp: resolve_and_validate_def split: sum.splits option.splits py_key.splits prod.splits)
     (metis snd_conv)+


lemma execute_keeps_counter:
  "tool_call_id (snd (execute_validated (in_agent t) vc self)) = tool_call_id self"
  using tool_keeps_counter [of t]
  by (auto simp: execute_validated_def split: sum.splits prod.splits)
     (metis snd_conv)+

lemma tools_in_agent:
  "(\<lambda>n. map_option in_agent (tools n)) n = Some t \<Longrightarrow> \<exists>t0. t = in_agent t0"
  by auto

lemma resolve_tool_in_agent:
  "resolve_and_validate va (\<lambda>n. map_option in_agent (tools n)) self c = (Inr (t, vc), w)
   \<Longrightarrow> \<exists>t0. t = in_agent t0"
  by (auto simp: resolve_and_validate_def split: sum.splits option.splits py_key.splits prod.splits)

lemma try_keeps_counter:
  "tool_call_id (snd (try_tool_call (validator_in_agent va) (\<lambda>n. map_option in_agent (tools n)) self c))
   = tool_call_id self"
proof (cases "resolve_and_validate (validator_in_agent va) (\<lambda>n. map_option in_agent (tools n)) self c")
  case (Pair r w)
  have w: "tool_call_id w = tool_call_id self"
    using resolve_keeps_counter [of va "\<lambda>n. map_option in_agent (tools n)" self c] Pair by simp
  show ?thesis
  proof (cases r)
    case (Inl e)
    with Pair w show ?thesis by (simp add: try_tool_call_def)
  next
    case (Inr tv)
    obtain t vc where tv: "tv = (t, vc)" by (cases tv)
    with Pair Inr obtain t0 where "t = in_agent t0"
      using resolve_tool_in_agent [of "validator_in_agent va" tools self c t vc w] by auto
    with Pair Inr tv w show ?thesis
      using execute_keeps_counter [of t0 vc w] by (simp add: try_tool_call_def)
  qed
qed

lemma foldl_keeps_counter:
  "tool_call_id (snd (foldl (process_tool_call (validator_in_agent va)
                               (\<lambda>n. map_option in_agent (tools n))) ow cs))
   = tool_call_id (snd ow)"
proof (induction cs arbitrary: ow)
  case Nil
  then show ?case by simp
next
  case (Cons c cs)
  obtain obs w where ow: "ow = (obs, w)" by (cases ow)
  show ?case
    using Cons [of "process_tool_call (validator_in_agent va)
                      (\<lambda>n. map_option in_agent (tools n)) ow c"]
    by (simp add: ow process_tool_call_state try_keeps_counter)
qed

lemma run_keeps_counter_zero:
  "tool_call_id (snd (run_observations (validator_in_agent va)
                        (\<lambda>n. map_option in_agent (tools n)) self tool_calls)) = 0"
  using foldl_keeps_counter [of va tools "([], self\<lparr>tool_call_id := 0\<rparr>)" "content tool_calls"]
  by (auto simp: run_observations_def Let_def process_tool_calls_def split: prod.splits)


lemma two_keys:
  assumes "map fst (add_reminder (dict_set [(k1, v1)] k2 v2) (dict_set [(k1, v1)] k2 v2))
           = [KInt i, KInt j]"
  shows "k1 = KInt i \<and> k2 = KInt j \<and> i \<noteq> j
         \<and> \<not> empty_no_results v1 \<and> \<not> empty_no_results v2"
proof (cases "k1 = k2")
  case True
  with assms show ?thesis
    by (auto simp: add_reminder_eq dict_set_fst split: if_splits)
next
  case False
  with assms show ?thesis
    by (auto simp: add_reminder_eq dict_set_fst split: if_splits)
qed

text \<open>
  C3 fails on the code, whatever \<^verbatim>\<open>validate_arguments\<close> is.  The dispatcher stores each
  result under \<^verbatim>\<open>validated_tool_call["id"]\<close> (line 154) and \<^verbatim>\<open>run\<close> resets
  \<^verbatim>\<open>self.tool_call_id\<close> when a turn begins (line 178, "Reset the tool call ID for each new
  user message"); but the validator is handed the call and the signature only, and nothing
  increments the counter or reads it.  So the id a call gets does not depend on the turn it comes
  in: whenever a turn of two equal calls stores their results under \<open>i\<close> and \<open>j\<close>, the same
  call in a turn of its own is stored under \<open>i\<close>, and in the turn after that one under
  \<open>j\<close>.  With \<open>i = 0\<close> and \<open>j = 1\<close>, as the claim has it for the turn of two calls, the
  second of the two turns starts at 1 and not at 0.  The counter is 0 at the end of every turn.
\<close>

theorem call_ids_do_not_restart:
  assumes both: "run_observations (validator_in_agent va) (\<lambda>n. map_option in_agent (tools n)) self
                   \<lparr>found = True, content = [c, c]\<rparr> = (Some obs, self2)"
    and ids: "map fst obs = [KInt i, KInt j]"
    and one: "run_observations (validator_in_agent va) (\<lambda>n. map_option in_agent (tools n)) self
                   \<lparr>found = True, content = [c]\<rparr> = (first, self1)"
    and again: "run_observations (validator_in_agent va) (\<lambda>n. map_option in_agent (tools n)) self1
                   \<lparr>found = True, content = [c]\<rparr> = (second, self')"
  shows "(\<exists>v1 v2. obs = [(KInt i, v1), (KInt j, v2)]
            \<and> first = Some [(KInt i, v1)]
            \<and> second = Some [(KInt j, v2)])
         \<and> i \<noteq> j
         \<and> self' = self2
         \<and> tool_call_id self1 = 0 \<and> tool_call_id self2 = 0"
proof -
  let ?VA = "validator_in_agent va"
  let ?TD = "\<lambda>n. map_option in_agent (tools n)"
  let ?s0 = "self\<lparr>tool_call_id := 0\<rparr>"
  let ?w1 = "snd (try_tool_call ?VA ?TD ?s0 c)"
  let ?w2 = "snd (try_tool_call ?VA ?TD ?w1 c)"
  obtain k1 v1 where s1: "\<And>ob. process_tool_call ?VA ?TD (ob, ?s0) c = (dict_set ob k1 v1, ?w1)"
    using process_tool_call_outcome [of ?VA ?TD ?s0 c] by blast
  obtain k2 v2 where s2: "\<And>ob. process_tool_call ?VA ?TD (ob, ?w1) c = (dict_set ob k2 v2, ?w2)"
    using process_tool_call_outcome [of ?VA ?TD ?w1 c] by blast
  have c1: "tool_call_id ?w1 = 0"
    by (simp add: try_keeps_counter)
  then have r1: "?w1\<lparr>tool_call_id := 0\<rparr> = ?w1"
    by simp
  have c2: "tool_call_id ?w2 = 0"
    by (simp add: try_keeps_counter)
  have p2: "process_tool_calls ?VA ?TD ?s0 [c, c] = (dict_set [(k1, v1)] k2 v2, ?w2)"
    by (simp add: process_tool_calls_def s1 s2)
  have p1: "process_tool_calls ?VA ?TD ?s0 [c] = ([(k1, v1)], ?w1)"
    by (simp add: process_tool_calls_def s1)
  have p1': "process_tool_calls ?VA ?TD ?w1 [c] = ([(k2, v2)], ?w2)"
    by (simp add: process_tool_calls_def s2)
  from both p2 have oo: "obs = add_reminder (dict_set [(k1, v1)] k2 v2) (dict_set [(k1, v1)] k2 v2)"
    and e2: "self2 = ?w2"
    by (simp_all add: run_observations_def Let_def)
  from ids oo have k: "k1 = KInt i \<and> k2 = KInt j \<and> i \<noteq> j
         \<and> \<not> empty_no_results v1 \<and> \<not> empty_no_results v2"
    using two_keys [of k1 v1 k2 v2 i j] by simp
  from oo k have obs: "obs = [(KInt i, v1), (KInt j, v2)]"
    by (simp add: add_reminder_eq)
  from one p1 k have f: "first = Some [(KInt i, v1)]" and e1: "self1 = ?w1"
    by (simp_all add: run_observations_def Let_def)
  from again e1 r1 p1' k have s: "second = Some [(KInt j, v2)]" and e': "self' = ?w2"
    by (simp_all add: run_observations_def Let_def)
  from obs f s k e' e2 e1 c1 c2 show ?thesis by simp
qed


theorem call_ids_do_not_restart_witness:
  "run_observations (validator_in_agent validate_arguments_spec)
       (\<lambda>n. map_option in_agent (counted_tools n)) \<lparr>tool_call_id = 7, tool_state = (0, 0)\<rparr>
       \<lparr>found = True,
        content = [call ''search'' [(''city'', JStr ''Austin'')] 5,
                   call ''search'' [(''city'', JStr ''Austin'')] 5]\<rparr>
     = (Some [(KInt 0, JObj [(''status'', JStr ''success''), (''data'', JArr [JStr ''Roma''])]),
              (KInt 1, JObj [(''status'', JStr ''success''), (''data'', JArr [JStr ''Roma''])])],
        \<lparr>tool_call_id = 0, tool_state = (2, 2)\<rparr>)
   \<and> run_observations (validator_in_agent validate_arguments_spec)
       (\<lambda>n. map_option in_agent (counted_tools n)) \<lparr>tool_call_id = 7, tool_state = (0, 0)\<rparr>
       \<lparr>found = True, content = [call ''search'' [(''city'', JStr ''Austin'')] 5]\<rparr>
     = (Some [(KInt 0, JObj [(''status'', JStr ''success''), (''data'', JArr [JStr ''Roma''])])],
        \<lparr>tool_call_id = 0, tool_state = (1, 1)\<rparr>)
   \<and> run_observations (validator_in_agent validate_arguments_spec)
       (\<lambda>n. map_option in_agent (counted_tools n)) \<lparr>tool_call_id = 0, tool_state = (1, 1)\<rparr>
       \<lparr>found = True, content = [call ''search'' [(''city'', JStr ''Austin'')] 5]\<rparr>
     = (Some [(KInt 1, JObj [(''status'', JStr ''success''), (''data'', JArr [JStr ''Roma''])])],
        \<lparr>tool_call_id = 0, tool_state = (2, 2)\<rparr>)
   \<and> (0::int) \<noteq> 1"
proof -
  let ?VA = "validator_in_agent validate_arguments_spec
               :: (tool_signature, (nat \<times> nat) agent) validator"
  let ?TD = "\<lambda>n. map_option in_agent (counted_tools n)"
  let ?c = "call ''search'' [(''city'', JStr ''Austin'')] 5"
  let ?ok = "JObj [(''status'', JStr ''success''), (''data'', JArr [JStr ''Roma''])]"
  have hb: "run_observations ?VA ?TD \<lparr>tool_call_id = 7, tool_state = (0, 0)\<rparr>
              \<lparr>found = True, content = [?c, ?c]\<rparr>
            = (Some [(KInt 0, ?ok), (KInt 1, ?ok)], \<lparr>tool_call_id = 0, tool_state = (2, 2)\<rparr>)"
    by code_simp
  have hi: "map fst [(KInt 0, ?ok), (KInt 1, ?ok)] = [KInt 0, KInt 1]"
    by simp
  have ho: "run_observations ?VA ?TD \<lparr>tool_call_id = 7, tool_state = (0, 0)\<rparr>
              \<lparr>found = True, content = [?c]\<rparr>
            = (Some [(KInt 0, ?ok)], \<lparr>tool_call_id = 0, tool_state = (1, 1)\<rparr>)"
    by code_simp
  obtain second self' where ha:
    "run_observations ?VA ?TD \<lparr>tool_call_id = 0, tool_state = (1, 1)\<rparr>
       \<lparr>found = True, content = [?c]\<rparr> = (second, self')"
    by (cases "run_observations ?VA ?TD \<lparr>tool_call_id = 0, tool_state = (1, 1)\<rparr>
                 \<lparr>found = True, content = [?c]\<rparr>")
  from call_ids_do_not_restart [OF hb hi ho ha]
  have "second = Some [(KInt 1, ?ok)]" and "self' = \<lparr>tool_call_id = 0, tool_state = (2, 2)\<rparr>"
    and "(0::int) \<noteq> 1"
    by simp_all
  with ha hb ho show ?thesis by simp
qed

text \<open>With a validator that hands the call back as it is, the results are stored under the
  \<^verbatim>\<open>id\<close> fields of the raw blocks: two blocks with the same one share a key, and the result
  of the first is lost.\<close>

lemma raw_ids_are_the_keys:
  "fst (run_observations accept_as_is two_tools fresh_agent
          \<lparr>found = True,
           content = [call ''search'' [(''city'', JStr ''Oslo'')] 5,
                      call ''search'' [(''city'', JStr ''Austin'')] 5]\<rparr>)
   = Some [(KInt 5, JObj [(''status'', JStr ''success''), (''data'', JArr [JStr ''Roma''])])]"
  by code_simp

end
